theory Spec2Isabelle
  imports Main "HOL-Library.Word"
begin

section \<open>JavaScript values\<close>

text \<open>
  The option bags, command payloads and database results of the server are JSON-shaped
  JavaScript values. Strings are Isabelle strings, a character standing for the code unit
  of the same number (U+0000 to U+00FF). A number is an integer from -2^53 to 2^53 - 1,
  which a double holds exactly and JavaScript prints in plain decimal; it is carried by a
  54-bit word read as signed, and no arithmetic is done on it (fractions, larger numbers,
  NaN and the infinities are left out). An object is the list of its own properties in the
  order in which \<open>Object.keys\<close> and \<open>JSON.stringify\<close> enumerate them.
\<close>

type_synonym number = "54 word"

datatype json =
    JUndefined
  | JNull
  | JBool bool
  | JNum number
  | JStr string
  | JArr "json list"
  | JObj "(string \<times> json) list"

text \<open>\<open>!!v\<close>: only undefined, null, false, 0 and the empty string are falsy.\<close>

fun truthy :: "json \<Rightarrow> bool" where
  "truthy JUndefined = False"
| "truthy JNull = False"
| "truthy (JBool b) = b"
| "truthy (JNum n) = (n \<noteq> 0)"
| "truthy (JStr s) = (s \<noteq> [])"
| "truthy (JArr xs) = True"
| "truthy (JObj kvs) = True"

text \<open>\<open>a || b\<close>\<close>

definition js_or :: "json \<Rightarrow> json \<Rightarrow> json" where
  "js_or a b = (if truthy a then a else b)"

text \<open>\<open>obj?.key\<close>: a missing property reads as undefined.\<close>

definition get_prop :: "(string \<times> json) list \<Rightarrow> string \<Rightarrow> json" where
  "get_prop kvs k = (case map_of kvs k of None \<Rightarrow> JUndefined | Some v \<Rightarrow> v)"

text \<open>\<open>delete obj.key\<close>\<close>

definition delete_prop :: "(string \<times> json) list \<Rightarrow> string \<Rightarrow> (string \<times> json) list" where
  "delete_prop kvs k = filter (\<lambda>kv. fst kv \<noteq> k) kvs"

subsection \<open>Property order\<close>

text \<open>
  Own property keys are enumerated with the array indices first, in ascending numeric
  order, and then the other keys in the order of their creation. An array index is the
  canonical decimal numeral of an integer from 0 to 2^32 - 2.
\<close>

definition is_digit :: "char \<Rightarrow> bool" where
  "is_digit c = ((48::nat) \<le> of_char c \<and> (of_char c :: nat) \<le> 57)"

definition digits_value :: "string \<Rightarrow> int" where
  "digits_value s = foldl (\<lambda>acc c. 10 * acc + (of_char c - 48)) 0 s"

definition is_array_index :: "string \<Rightarrow> bool" where
  "is_array_index s =
     (s \<noteq> [] \<and> list_all is_digit s \<and> (s = ''0'' \<or> hd s \<noteq> CHR ''0'')
      \<and> digits_value s < 4294967295)"

text \<open>Creating a property that the object does not have yet.\<close>

fun insert_prop :: "(string \<times> json) list \<Rightarrow> string \<Rightarrow> json \<Rightarrow> (string \<times> json) list" where
  "insert_prop [] k v = [(k, v)]"
| "insert_prop ((k', v') # kvs) k v =
     (if is_array_index k \<and>
         (\<not> is_array_index k' \<or> digits_value k < digits_value k')
      then (k, v) # (k', v') # kvs
      else (k', v') # insert_prop kvs k v)"

text \<open>Assigning a property: an existing one keeps its place and takes the new value.\<close>

definition set_prop :: "(string \<times> json) list \<Rightarrow> string \<Rightarrow> json \<Rightarrow> (string \<times> json) list" where
  "set_prop kvs k v =
     (if k \<in> fst ` set kvs
      then map (\<lambda>kv. if fst kv = k then (k, v) else kv) kvs
      else insert_prop kvs k v)"

text \<open>\<open>{ ...base, ...src }\<close>: the properties of \<open>src\<close> are assigned in their order.\<close>

definition spread :: "(string \<times> json) list \<Rightarrow> (string \<times> json) list \<Rightarrow> (string \<times> json) list" where
  "spread base src = foldl (\<lambda>acc kv. set_prop acc (fst kv) (snd kv)) base src"

subsection \<open>JSON.stringify\<close>

definition digit_char :: "nat \<Rightarrow> char" where
  "digit_char n = ''0123456789'' ! n"

function string_of_nat :: "nat \<Rightarrow> string" where
  "string_of_nat n =
     (if n < 10 then [digit_char n] else string_of_nat (n div 10) @ [digit_char (n mod 10)])"
  by pat_completeness auto
termination
  by (relation "measure id") auto

text \<open>\<open>String(n)\<close> for a number: its decimal digits, after a minus sign when negative.\<close>

definition number_text :: "number \<Rightarrow> string" where
  "number_text n =
     (if sint n < 0 then CHR ''-'' # string_of_nat (nat (- sint n)) else string_of_nat (nat (sint n)))"

definition hex_char :: "nat \<Rightarrow> char" where
  "hex_char n = ''0123456789abcdef'' ! n"

text \<open>The escape of one character inside a JSON string literal.\<close>

definition escape_char :: "char \<Rightarrow> string" where
  "escape_char c =
     (if c = CHR 0x22 then [CHR 0x5C, CHR 0x22]
      else if c = CHR 0x5C then [CHR 0x5C, CHR 0x5C]
      else if c = CHR 0x08 then [CHR 0x5C, CHR ''b'']
      else if c = CHR 0x0C then [CHR 0x5C, CHR ''f'']
      else if c = CHR 0x0A then [CHR 0x5C, CHR ''n'']
      else if c = CHR 0x0D then [CHR 0x5C, CHR ''r'']
      else if c = CHR 0x09 then [CHR 0x5C, CHR ''t'']
      else if (of_char c :: nat) < 32
        then [CHR 0x5C, CHR ''u'', CHR ''0'', CHR ''0'',
              hex_char (of_char c div 16), hex_char (of_char c mod 16)]
      else [c])"

definition quote :: "string \<Rightarrow> string" where
  "quote s = CHR 0x22 # concat (map escape_char s) @ [CHR 0x22]"

fun join :: "string \<Rightarrow> string list \<Rightarrow> string" where
  "join sep [] = []"
| "join sep [x] = x"
| "join sep (x # y # ys) = x @ sep @ join sep (y # ys)"

text \<open>
  \<open>ser ind cur v\<close> is the text of a value other than undefined. \<open>ind\<close> is the
  indentation unit (empty for \<open>JSON.stringify(v)\<close>, two spaces for
  \<open>JSON.stringify(v, null, 2)\<close>) and \<open>cur\<close> the indentation reached. An undefined
  array element is written null, an undefined property is left out.
\<close>

fun ser :: "string \<Rightarrow> string \<Rightarrow> json \<Rightarrow> string" where
  "ser ind cur JUndefined = []"
| "ser ind cur JNull = ''null''"
| "ser ind cur (JBool b) = (if b then ''true'' else ''false'')"
| "ser ind cur (JNum n) = number_text n"
| "ser ind cur (JStr s) = quote s"
| "ser ind cur (JArr xs) =
     (let parts = map (\<lambda>x. if x = JUndefined then ''null'' else ser ind (cur @ ind) x) xs
      in if parts = [] then ''[]''
         else if ind = [] then ''['' @ join '','' parts @ '']''
         else ''['' @ [CHR 0x0A] @ cur @ ind @ join ('','' @ [CHR 0x0A] @ cur @ ind) parts
              @ [CHR 0x0A] @ cur @ '']'')"
| "ser ind cur (JObj kvs) =
     (let parts = map (\<lambda>kv. quote (fst kv) @ (if ind = [] then '':'' else '': '')
                               @ ser ind (cur @ ind) (snd kv))
                      (filter (\<lambda>kv. snd kv \<noteq> JUndefined) kvs)
      in if parts = [] then ''{}''
         else if ind = [] then ''{'' @ join '','' parts @ ''}''
         else ''{'' @ [CHR 0x0A] @ cur @ ind @ join ('','' @ [CHR 0x0A] @ cur @ ind) parts
              @ [CHR 0x0A] @ cur @ ''}'')"

text \<open>\<open>JSON.stringify(v)\<close> and \<open>JSON.stringify(v, null, 2)\<close>: undefined for undefined.\<close>

definition stringify :: "json \<Rightarrow> string option" where
  "stringify v = (if v = JUndefined then None else Some (ser [] [] v))"

definition stringify_pretty :: "json \<Rightarrow> string option" where
  "stringify_pretty v = (if v = JUndefined then None else Some (ser ''  '' [] v))"

text \<open>\<open>s.includes(t)\<close>\<close>

fun str_includes :: "string \<Rightarrow> string \<Rightarrow> bool" where
  "str_includes [] t = (t = [])"
| "str_includes (c # cs) t = (take (length t) (c # cs) = t \<or> str_includes cs t)"

section \<open>Command errors\<close>

datatype MongoCommandErrorCode =
    COMMAND_NOT_ALLOWED
  | INVALID_COMMAND_STRUCTURE
  | DANGEROUS_OPERATION
  | EXECUTION_ERROR
  | FILE_OPERATION_ERROR
  | CONNECTION_ERROR
  | TIMEOUT_ERROR

text \<open>
  What the driver, the file system or the runtime throws: an \<open>Error\<close> instance with its
  message, or some other value; the flag says whether the thrown object carries a
  \<open>code\<close> property (driver and file-system errors do).
\<close>

datatype thrown_value =
    ErrorInstance string bool
  | OtherValue bool

text \<open>The \<open>details\<close> of a command error: absent, \<open>{ timeoutMs }\<close>, or the caught value.\<close>

datatype error_details =
    NoDetails
  | TimeoutMs number
  | Cause thrown_value

record MongoCommandError =
  code :: MongoCommandErrorCode
  message :: string
  details :: error_details

definition createCommandError ::
  "MongoCommandErrorCode \<Rightarrow> string \<Rightarrow> error_details \<Rightarrow> MongoCommandError" where
  "createCommandError c m d = \<lparr>code = c, message = m, details = d\<rparr>"

text \<open>Everything a function of the module can throw.\<close>

datatype thrown =
    Cmd MongoCommandError
  | Lib thrown_value

section \<open>Command validation\<close>

definition ALLOWED_COMMANDS :: "string list" where
  "ALLOWED_COMMANDS =
     [''dbStats'', ''collStats'', ''serverStatus'', ''buildInfo'', ''connectionStatus'',
      ''ping'', ''hello'', ''hostInfo'', ''listCommands'', ''features'', ''connect'',
      ''disconnect'']"

definition DANGEROUS_OPERATORS :: "string list" where
  "DANGEROUS_OPERATORS =
     [''$where'', ''$function'', ''$accumulator'', ''$map'', ''$merge'', ''$out'',
      ''$lookup'', ''$graphLookup'']"

text \<open>The object whose structure \<open>validateCommand\<close> checks.\<close>

definition validation_object :: "string \<Rightarrow> (string \<times> json) list \<Rightarrow> (string \<times> json) list" where
  "validation_object command options =
     (if command = ''collStats''
      then spread [(command, js_or (get_prop options ''collection'') (JStr []))] options
      else spread [(command, JNum 1)] options)"

text \<open>The text \<open>"${dangerous}":\<close> searched for in the serialized object.\<close>

definition key_pattern :: "string \<Rightarrow> string" where
  "key_pattern dangerous = [CHR 0x22] @ dangerous @ [CHR 0x22, CHR '':'']"

definition validateCommand :: "string \<Rightarrow> (string \<times> json) list \<Rightarrow> MongoCommandError + unit" where
  "validateCommand command options =
     (if command \<notin> set ALLOWED_COMMANDS
      then Inl (createCommandError COMMAND_NOT_ALLOWED
             (''Command '' @ [CHR 0x27] @ command @ [CHR 0x27]
                @ '' is not allowed. Allowed commands: '' @ join '', '' ALLOWED_COMMANDS)
             NoDetails)
      else
        let commandObj = validation_object command options;
            commandKeys = map fst commandObj
        in (case find (\<lambda>key. key \<noteq> command \<and> key \<in> set ALLOWED_COMMANDS) commandKeys of
              Some key \<Rightarrow>
                Inl (createCommandError INVALID_COMMAND_STRUCTURE
                  (''Invalid command structure: Contains another command key ''
                     @ [CHR 0x27] @ key @ [CHR 0x27])
                  NoDetails)
            | None \<Rightarrow>
                (let flattenedObj = ser [] [] (JObj commandObj)
                 in (case find (\<lambda>dangerous. str_includes flattenedObj (key_pattern dangerous))
                           DANGEROUS_OPERATORS of
                       Some dangerous \<Rightarrow>
                         Inl (createCommandError DANGEROUS_OPERATION
                           (''Command contains potentially dangerous operation: '' @ dangerous)
                           NoDetails)
                     | None \<Rightarrow> Inr ()))))"

section \<open>Paths\<close>

text \<open>
  The functions of Node's \<open>path\<close> module that \<open>sanitizeFilePath\<close> calls, in their
  POSIX flavour: the separator is the slash. \<open>normalizeString\<close> walks the segments
  between slashes and keeps the stack of the segments that remain (last one first).
\<close>

fun split_slash :: "string \<Rightarrow> string list" where
  "split_slash [] = [[]]"
| "split_slash (c # cs) =
     (if c = CHR ''/'' then [] # split_slash cs
      else (case split_slash cs of [] \<Rightarrow> [[c]] | s # ss \<Rightarrow> (c # s) # ss))"

definition normalize_step :: "bool \<Rightarrow> string list \<Rightarrow> string \<Rightarrow> string list" where
  "normalize_step allowAboveRoot st seg =
     (if seg = [] \<or> seg = ''.'' then st
      else if seg = ''..'' then
        (if st \<noteq> [] \<and> hd st \<noteq> ''..'' then tl st
         else if allowAboveRoot then ''..'' # st
         else st)
      else seg # st)"

definition normalizeString :: "string \<Rightarrow> bool \<Rightarrow> string" where
  "normalizeString path allowAboveRoot =
     join ''/'' (rev (foldl (normalize_step allowAboveRoot) [] (split_slash path)))"

definition path_normalize :: "string \<Rightarrow> string" where
  "path_normalize path =
     (if path = [] then ''.''
      else
        let isAbsolute = (hd path = CHR ''/'');
            trailingSeparator = (last path = CHR ''/'');
            p = normalizeString path (\<not> isAbsolute)
        in if p = [] then (if isAbsolute then ''/'' else if trailingSeparator then ''./'' else ''.'')
           else (if isAbsolute then ''/'' else []) @ p @ (if trailingSeparator then ''/'' else []))"

text \<open>\<open>path.basename\<close>: trailing slashes are dropped, then what follows the last slash is kept.\<close>

definition path_basename :: "string \<Rightarrow> string" where
  "path_basename path =
     rev (takeWhile (\<lambda>c. c \<noteq> CHR ''/'') (dropWhile (\<lambda>c. c = CHR ''/'') (rev path)))"

text \<open>\<open>path.join\<close> of two arguments: empty arguments are skipped, the rest is normalized.\<close>

definition path_join :: "string \<Rightarrow> string \<Rightarrow> string" where
  "path_join a b =
     (let joined = (if a = [] then b else if b = [] then a else a @ ''/'' @ b)
      in if joined = [] then ''.'' else path_normalize joined)"

section \<open>The environment: temp directory, clock and file system\<close>

text \<open>
  \<open>tmpdir\<close> is what \<open>os.tmpdir()\<close> returns and \<open>now_iso\<close> what
  \<open>new Date().toISOString()\<close> returns at the call.
\<close>

record environment =
  tmpdir :: string
  now_iso :: string

text \<open>
  A file system holds what is at each path, looked up by the path string handed to it: a
  regular file with its bytes, or a directory with the size that \<open>stat\<close> reports for
  it; \<open>write_refused\<close> tells where writing fails.
\<close>

type_synonym byte = "8 word"

datatype fs_node =
    RegularFile "byte list"
  | Directory nat

record filesystem =
  files :: "string \<Rightarrow> fs_node option"
  write_refused :: "string \<Rightarrow> bool"

definition os_error :: "string \<Rightarrow> string \<Rightarrow> string \<Rightarrow> thrown_value" where
  "os_error what syscall path =
     ErrorInstance (what @ '', '' @ syscall @ '' '' @ [CHR 0x27] @ path @ [CHR 0x27]) True"

text \<open>
  \<open>fs.open(path, 'r')\<close>: the handle is the file or directory that the path names; a
  directory opens for reading as a file does.
\<close>

definition fs_open :: "filesystem \<Rightarrow> string \<Rightarrow> thrown_value + string" where
  "fs_open fs path =
     (case files fs path of
        None \<Rightarrow> Inl (os_error ''ENOENT: no such file or directory'' ''open'' path)
      | Some node \<Rightarrow> Inr path)"

definition fs_stat :: "filesystem \<Rightarrow> string \<Rightarrow> thrown_value + nat" where
  "fs_stat fs path =
     (case files fs path of
        None \<Rightarrow> Inl (os_error ''ENOENT: no such file or directory'' ''stat'' path)
      | Some (RegularFile bytes) \<Rightarrow> Inr (length bytes)
      | Some (Directory reported) \<Rightarrow> Inr reported)"

text \<open>
  \<open>Buffer.alloc(length)\<close> followed by \<open>handle.read(buffer, 0, length, offset)\<close>: the
  bytes that land in the buffer. The length is taken as a 32-bit signed integer: from 2^31
  on the process aborts and nothing is returned, which is the value \<open>None\<close>. A read of
  no bytes returns at once; reading from a directory fails. The offset is a position in
  the file, a non-negative safe integer.
\<close>

definition handle_read ::
  "filesystem \<Rightarrow> string \<Rightarrow> nat \<Rightarrow> nat \<Rightarrow> (thrown_value + byte list) option" where
  "handle_read fs handle len offset =
     (if 2147483648 \<le> len then None
      else if len = 0 then Some (Inr [])
      else case files fs handle of
             None \<Rightarrow> Some (Inl (ErrorInstance ''EBADF: bad file descriptor, read'' True))
           | Some (RegularFile bytes) \<Rightarrow> Some (Inr (take len (drop offset bytes)))
           | Some (Directory reported) \<Rightarrow>
               Some (Inl (ErrorInstance ''EISDIR: illegal operation on a directory, read'' True)))"

subsection \<open>UTF-8\<close>

text \<open>Writing a string as UTF-8: one byte below U+0080, two bytes from U+0080 to U+00FF.\<close>

definition utf8_encode_char :: "char \<Rightarrow> byte list" where
  "utf8_encode_char c =
     (let n = (of_char c :: nat)
      in if n < 128 then [of_nat n] else [of_nat (192 + n div 64), of_nat (128 + n mod 64)])"

definition utf8_encode :: "string \<Rightarrow> byte list" where
  "utf8_encode s = concat (map utf8_encode_char s)"

text \<open>
  \<open>buffer.toString('utf8')\<close>: the decoded code points, every ill-formed or truncated
  sequence giving U+FFFD. The decoder state is the code point collected so far, the number
  of continuation bytes still needed, and the bounds of the next continuation byte.
\<close>

type_synonym utf8_state = "int \<times> nat \<times> int \<times> int"

definition utf8_init :: utf8_state where
  "utf8_init = (0, 0, 0x80, 0xBF)"

definition utf8_lead :: "int \<Rightarrow> int list \<times> utf8_state" where
  "utf8_lead b =
     (if b \<le> 0x7F then ([b], utf8_init)
      else if 0xC2 \<le> b \<and> b \<le> 0xDF then ([], (b mod 32, 1, 0x80, 0xBF))
      else if 0xE0 \<le> b \<and> b \<le> 0xEF
        then ([], (b mod 16, 2, if b = 0xE0 then 0xA0 else 0x80, if b = 0xED then 0x9F else 0xBF))
      else if 0xF0 \<le> b \<and> b \<le> 0xF4
        then ([], (b mod 8, 3, if b = 0xF0 then 0x90 else 0x80, if b = 0xF4 then 0x8F else 0xBF))
      else ([0xFFFD], utf8_init))"

definition utf8_step :: "utf8_state \<Rightarrow> int \<Rightarrow> int list \<times> utf8_state" where
  "utf8_step st b =
     (case st of (cp, needed, lo, hi) \<Rightarrow>
        if needed = 0 then utf8_lead b
        else if b < lo \<or> hi < b then (0xFFFD # fst (utf8_lead b), snd (utf8_lead b))
        else if needed = 1 then ([cp * 64 + b mod 64], utf8_init)
        else ([], (cp * 64 + b mod 64, needed - 1, 0x80, 0xBF)))"

fun utf8_run :: "utf8_state \<Rightarrow> byte list \<Rightarrow> int list" where
  "utf8_run st [] = (if fst (snd st) \<noteq> 0 then [0xFFFD] else [])"
| "utf8_run st (b # bs) = fst (utf8_step st (uint b)) @ utf8_run (snd (utf8_step st (uint b))) bs"

definition utf8_decode :: "byte list \<Rightarrow> int list" where
  "utf8_decode bytes = utf8_run utf8_init bytes"

text \<open>
  \<open>fs.writeFile(path, data, 'utf8')\<close>; a \<open>data\<close> that is undefined is a type error,
  and a directory cannot be written.
\<close>

definition fs_writeFile :: "filesystem \<Rightarrow> string \<Rightarrow> string option \<Rightarrow> thrown_value + filesystem" where
  "fs_writeFile fs path data =
     (case data of
        None \<Rightarrow>
          Inl (ErrorInstance (''The '' @ [CHR 0x22] @ ''data'' @ [CHR 0x22]
                 @ '' argument must be of type string or an instance of Buffer, TypedArray, or DataView. Received undefined'')
                 True)
      | Some text \<Rightarrow>
          (case files fs path of
             Some (Directory reported) \<Rightarrow>
               Inl (os_error ''EISDIR: illegal operation on a directory'' ''open'' path)
           | _ \<Rightarrow>
               if write_refused fs path
               then Inl (os_error ''EACCES: permission denied'' ''open'' path)
               else Inr (fs\<lparr>files := (files fs)(path \<mapsto> RegularFile (utf8_encode text))\<rparr>)))"

section \<open>Spilling results and reading them back\<close>

definition sanitizeFilePath :: "environment \<Rightarrow> string \<Rightarrow> string" where
  "sanitizeFilePath env filePath =
     (let normalizedPath = path_normalize filePath;
          baseName = path_basename normalizedPath
      in path_join (tmpdir env) baseName)"

text \<open>
  A file name proper: not empty, without a slash, and neither of the dot names. A path
  ends with such a name when the name is all of it or follows a slash.
\<close>

definition is_file_name :: "string \<Rightarrow> bool" where
  "is_file_name name =
     (name \<noteq> [] \<and> CHR ''/'' \<notin> set name \<and> name \<noteq> ''.'' \<and> name \<noteq> ''..'')"

definition ends_with_name :: "string \<Rightarrow> string \<Rightarrow> bool" where
  "ends_with_name name path =
     (let pre = take (length path - length name) path
      in path = pre @ name \<and> (pre = [] \<or> last pre = CHR ''/''))"

text \<open>A path lies inside a directory when it continues the directory's path after a slash.\<close>

definition inside_directory :: "string \<Rightarrow> string \<Rightarrow> bool" where
  "inside_directory dir path =
     (length dir + 1 < length path \<and> take (length dir + 1) path = dir @ ''/'')"

record spill_record =
  spill_filePath :: string
  spill_size :: nat
  spill_timestamp :: string
  spill_notice :: string

text \<open>The handler of the \<open>catch\<close> blocks of the two file functions.\<close>

definition file_error :: "string \<Rightarrow> thrown_value \<Rightarrow> MongoCommandError" where
  "file_error what error =
     (case error of
        ErrorInstance msg c \<Rightarrow>
          createCommandError FILE_OPERATION_ERROR (what @ msg) (Cause error)
      | OtherValue c \<Rightarrow>
          createCommandError FILE_OPERATION_ERROR (what @ ''Unknown error'') (Cause error))"

definition writeResultToTempFile ::
  "environment \<Rightarrow> filesystem \<Rightarrow> json \<Rightarrow> (MongoCommandError + spill_record) \<times> filesystem" where
  "writeResultToTempFile env fs data =
     (let tempDir = tmpdir env;
          timestamp = map (\<lambda>c. if c = CHR '':'' \<or> c = CHR ''.'' then CHR ''-'' else c) (now_iso env);
          fileName = ''mongodb-result-'' @ timestamp @ ''.json'';
          filePath = path_join tempDir fileName;
          jsonData = stringify_pretty data
      in case fs_writeFile fs filePath jsonData of
           Inl error \<Rightarrow> (Inl (file_error ''Failed to write results to temp file: '' error), fs)
         | Inr fs' \<Rightarrow>
             (case fs_stat fs' filePath of
                Inl error \<Rightarrow> (Inl (file_error ''Failed to write results to temp file: '' error), fs')
              | Inr stats_size \<Rightarrow>
                  (Inr \<lparr>spill_filePath = filePath, spill_size = stats_size,
                        spill_timestamp = timestamp,
                        spill_notice = ''Result exceeded size limit and was written to a temporary file.''\<rparr>,
                   fs')))"

record chunk_result =
  chunk :: "int list"
  chunk_offset :: nat
  chunk_length :: nat
  totalSize :: nat
  hasMore :: bool

text \<open>\<open>None\<close>: the process aborted inside the read and nothing is returned.\<close>

definition readFileChunk ::
  "environment \<Rightarrow> filesystem \<Rightarrow> string \<Rightarrow> nat \<Rightarrow> nat
     \<Rightarrow> (MongoCommandError + chunk_result) option" where
  "readFileChunk env fs filePath offset len =
     (let sanitizedPath = sanitizeFilePath env filePath
      in case fs_open fs sanitizedPath of
           Inl error \<Rightarrow> Some (Inl (file_error ''Failed to read from temp file: '' error))
         | Inr handle \<Rightarrow>
             (case fs_stat fs filePath of
                Inl error \<Rightarrow> Some (Inl (file_error ''Failed to read from temp file: '' error))
              | Inr stats_size \<Rightarrow>
                  (case handle_read fs handle len offset of
                     None \<Rightarrow> None
                   | Some (Inl error) \<Rightarrow>
                       Some (Inl (file_error ''Failed to read from temp file: '' error))
                   | Some (Inr buffer) \<Rightarrow>
                       (let bytesRead = length buffer
                        in Some (Inr \<lparr>chunk = utf8_decode buffer, chunk_offset = offset,
                                      chunk_length = bytesRead, totalSize = stats_size,
                                      hasMore = (offset + bytesRead < stats_size)\<rparr>)))))"

text \<open>
  Reading a file of \<open>n\<close> bytes back in chunks of \<open>c\<close> bytes: the offsets
  0, c, 2c, ... below \<open>n\<close>, and the answers of \<open>readFileChunk\<close> at them.
\<close>

definition chunk_offsets :: "nat \<Rightarrow> nat \<Rightarrow> nat list" where
  "chunk_offsets n c = map (\<lambda>k. k * c) [0 ..< (n + c - 1) div c]"

definition read_back ::
  "environment \<Rightarrow> filesystem \<Rightarrow> string \<Rightarrow> nat \<Rightarrow> nat
     \<Rightarrow> (MongoCommandError + chunk_result) option list" where
  "read_back env fs path n c =
     map (\<lambda>offset. readFileChunk env fs path offset c) (chunk_offsets n c)"

text \<open>
  The byte offsets at which a character of the text starts in its UTF-8 form, and the
  offset at which the text ends. Chunks of \<open>c\<close> bytes keep the characters whole when
  each chunk starts at one of them, that is, when no chunk boundary falls inside a
  character of several bytes.
\<close>

definition char_starts :: "string \<Rightarrow> nat list" where
  "char_starts s = map (\<lambda>j. length (utf8_encode (take j s))) [0 ..< Suc (length s)]"

definition chunks_keep_characters :: "string \<Rightarrow> nat \<Rightarrow> bool" where
  "chunks_keep_characters s c =
     list_all (\<lambda>offset. offset \<in> set (char_starts s))
       (chunk_offsets (length (utf8_encode s)) c)"

section \<open>Command execution\<close>

definition MAX_RESPONSE_SIZE :: nat where
  "MAX_RESPONSE_SIZE = 100000"

definition DEFAULT_TIMEOUT :: number where
  "DEFAULT_TIMEOUT = 30000"

text \<open>
  What the race of \<open>withTimeout\<close> sees of a promise: it has resolved or rejected before
  the timer fires, or it is still unsettled when the timer fires.
\<close>

datatype 'a settlement =
    Resolved 'a
  | Rejected thrown_value
  | Unsettled

definition withTimeout :: "'a settlement \<Rightarrow> number \<Rightarrow> string \<Rightarrow> thrown + 'a" where
  "withTimeout promise timeoutMs errorMessage =
     (case promise of
        Resolved r \<Rightarrow> Inr r
      | Rejected e \<Rightarrow> Inl (Lib e)
      | Unsettled \<Rightarrow> Inl (Cmd (createCommandError TIMEOUT_ERROR errorMessage (TimeoutMs timeoutMs))))"

text \<open>The payload that \<open>executeCommand\<close> hands to \<open>db.command\<close>.\<close>

definition command_payload :: "string \<Rightarrow> (string \<times> json) list \<Rightarrow> json" where
  "command_payload command cleanOptions =
     (if command = ''collStats'' then
        (let collName = js_or (get_prop cleanOptions ''collection'') (get_prop cleanOptions ''collStats'');
             commandObj = spread [(command, collName)] cleanOptions;
             commandObj1 = (if ''collection'' \<in> fst ` set commandObj
                            then delete_prop commandObj ''collection'' else commandObj);
             commandObj2 = (if ''collStats'' \<in> fst ` set commandObj1
                            then delete_prop commandObj1 ''collStats'' else commandObj1)
         in JObj commandObj2)
      else if command = ''dbStats'' then JObj (spread [(command, JNum 1)] cleanOptions)
      else JObj (spread [(command, js_or (get_prop cleanOptions ''collection'') (JNum 1))]
                   cleanOptions))"

text \<open>
  The \<open>catch\<close> block of \<open>executeCommand\<close>: an object with a \<open>code\<close> property is
  thrown on as it is, anything else is wrapped.
\<close>

definition execution_error :: "string \<Rightarrow> thrown \<Rightarrow> thrown" where
  "execution_error command error =
     (case error of
        Cmd e \<Rightarrow> Cmd e
      | Lib (ErrorInstance msg has_code) \<Rightarrow>
          if has_code then error
          else Cmd (createCommandError EXECUTION_ERROR
                 (''Failed to execute command '' @ [CHR 0x27] @ command @ [CHR 0x27] @ '': '' @ msg)
                 (Cause (ErrorInstance msg has_code)))
      | Lib (OtherValue has_code) \<Rightarrow>
          if has_code then error
          else Cmd (createCommandError EXECUTION_ERROR
                 (''Failed to execute command '' @ [CHR 0x27] @ command @ [CHR 0x27]
                    @ '': Unknown error'')
                 (Cause (OtherValue has_code))))"

text \<open>The option bag without the three options that control the response.\<close>

definition clean_options :: "(string \<times> json) list \<Rightarrow> (string \<times> json) list" where
  "clean_options options =
     delete_prop (delete_prop (delete_prop options ''outputToFile'') ''forceOutput'') ''timeout''"

definition configured_timeout :: "(string \<times> json) list \<Rightarrow> number" where
  "configured_timeout options =
     (case get_prop options ''timeout'' of JNum n \<Rightarrow> n | _ \<Rightarrow> DEFAULT_TIMEOUT)"

text \<open>What \<open>executeCommand\<close> returns: the raw result, or the record of the spill.\<close>

datatype exec_result =
    Inline json
  | Spilled spill_record

text \<open>
  A run of \<open>executeCommand\<close>: how it ends, the payloads passed to \<open>db.command\<close>, and
  the file system it leaves.
\<close>

record execution =
  outcome :: "thrown + exec_result"
  db_calls :: "json list"
  fs_after :: filesystem

definition executeCommand ::
  "environment \<Rightarrow> (json \<Rightarrow> json settlement) \<Rightarrow> string \<Rightarrow> (string \<times> json) list
     \<Rightarrow> filesystem \<Rightarrow> execution" where
  "executeCommand env db command options fs =
     (let outputToFile = truthy (get_prop options ''outputToFile'');
          forceOutput = truthy (get_prop options ''forceOutput'');
          timeout = configured_timeout options;
          cleanOptions = clean_options options
      in case validateCommand command cleanOptions of
           Inl e \<Rightarrow>
             \<lparr>outcome = Inl (execution_error command (Cmd e)), db_calls = [], fs_after = fs\<rparr>
         | Inr u \<Rightarrow>
             (let commandObj = command_payload command cleanOptions
              in case withTimeout (db commandObj) timeout
                        (''Command '' @ [CHR 0x27] @ command @ [CHR 0x27] @ '' timed out after ''
                           @ number_text timeout @ ''ms'') of
                   Inl error \<Rightarrow>
                     \<lparr>outcome = Inl (execution_error command error), db_calls = [commandObj],
                      fs_after = fs\<rparr>
                 | Inr result \<Rightarrow>
                     (case stringify result of
                        None \<Rightarrow>
                          \<lparr>outcome = Inl (execution_error command (Lib (ErrorInstance
                             (''Cannot read properties of undefined (reading ''
                                @ [CHR 0x27] @ ''length'' @ [CHR 0x27] @ '')'') False))),
                           db_calls = [commandObj], fs_after = fs\<rparr>
                      | Some resultJson \<Rightarrow>
                          (let resultSize = length resultJson
                           in if (resultSize > MAX_RESPONSE_SIZE \<or> outputToFile) \<and> \<not> forceOutput
                              then (case writeResultToTempFile env fs result of
                                      (Inl e, fs') \<Rightarrow>
                                        \<lparr>outcome = Inl (execution_error command (Cmd e)),
                                         db_calls = [commandObj], fs_after = fs'\<rparr>
                                    | (Inr record, fs') \<Rightarrow>
                                        \<lparr>outcome = Inr (Spilled record),
                                         db_calls = [commandObj], fs_after = fs'\<rparr>)
                              else \<lparr>outcome = Inr (Inline result), db_calls = [commandObj],
                                    fs_after = fs\<rparr>))))"

section \<open>The connection\<close>

text \<open>
  The two module variables. A client is known by the URL it was made for, a database
  handle by its client.
\<close>

datatype MongoClient = Client string

datatype Db = DbOf MongoClient

record connection =
  mongoClient :: "MongoClient option"
  mongoDb :: "Db option"

text \<open>
  The driver: whether the constructor accepts a URL, and whether \<open>connect\<close> and
  \<open>close\<close> of a client succeed (otherwise each throws).
\<close>

record driver =
  url_accepted :: "string \<Rightarrow> bool"
  connect_succeeds :: "MongoClient \<Rightarrow> bool"
  close_succeeds :: "MongoClient \<Rightarrow> bool"

definition driver_error :: thrown_value where
  "driver_error = ErrorInstance ''driver error'' True"

text \<open>The \<open>try\<close> block of \<open>connectToMongoDB\<close>, with the variables as it leaves them.\<close>

definition connect_try :: "driver \<Rightarrow> string \<Rightarrow> connection \<Rightarrow> (thrown_value + bool) \<times> connection" where
  "connect_try drv url st =
     (case (case mongoClient st of
              None \<Rightarrow> Inr st
            | Some old \<Rightarrow>
                if close_succeeds drv old then Inr (st\<lparr>mongoClient := None, mongoDb := None\<rparr>)
                else Inl st) of
        Inl st0 \<Rightarrow> (Inl driver_error, st0)
      | Inr st1 \<Rightarrow>
          if \<not> url_accepted drv url then (Inl driver_error, st1)
          else
            (let st2 = st1\<lparr>mongoClient := Some (Client url)\<rparr>
             in if \<not> connect_succeeds drv (Client url) then (Inl driver_error, st2)
                else (Inr True, st2\<lparr>mongoDb := Some (DbOf (Client url))\<rparr>)))"

definition connectToMongoDB :: "driver \<Rightarrow> string \<Rightarrow> connection \<Rightarrow> (thrown_value + bool) \<times> connection" where
  "connectToMongoDB drv url st =
     (case connect_try drv url st of
        (Inl error, st') \<Rightarrow> (Inr False, st')
      | (Inr connected, st') \<Rightarrow> (Inr connected, st'))"

definition disconnectFromMongoDB :: "driver \<Rightarrow> connection \<Rightarrow> (thrown_value + bool) \<times> connection" where
  "disconnectFromMongoDB drv st =
     (case mongoClient st of
        Some old \<Rightarrow>
          if close_succeeds drv old then (Inr True, st\<lparr>mongoClient := None, mongoDb := None\<rparr>)
          else (Inr False, st)
      | None \<Rightarrow> (Inr False, st))"

definition getMongoClient :: "connection \<Rightarrow> MongoClient option" where
  "getMongoClient st = mongoClient st"

definition getMongoDb :: "connection \<Rightarrow> Db option" where
  "getMongoDb st = mongoDb st"

definition isMongoConnected :: "connection \<Rightarrow> bool" where
  "isMongoConnected st = (mongoClient st \<noteq> None \<and> mongoDb st \<noteq> None)"

section \<open>The run_command tool\<close>

text \<open>
  The text that the tool answers with: a fixed message, the pretty-printed result of
  \<open>executeCommand\<close>, or a prefix followed by the text of what it threw.
\<close>

datatype tool_response =
    Text string
  | ResultText exec_result
  | FailureText string thrown

record tool_run =
  response :: tool_response
  tool_db_calls :: "json list"
  tool_fs_after :: filesystem

text \<open>
  The database handle of the server: its \<open>command\<close> method, and whether
  \<open>db.collection(name)\<close> throws.
\<close>

record db_handle =
  db_command :: "json \<Rightarrow> json settlement"
  db_collection_throws :: "json \<Rightarrow> bool"

definition run_tool :: "string \<Rightarrow> execution \<Rightarrow> tool_run" where
  "run_tool prefix ex =
     (case outcome ex of
        Inl error \<Rightarrow>
          \<lparr>response = FailureText prefix error, tool_db_calls = db_calls ex,
           tool_fs_after = fs_after ex\<rparr>
      | Inr result \<Rightarrow>
          \<lparr>response = ResultText result, tool_db_calls = db_calls ex,
           tool_fs_after = fs_after ex\<rparr>)"

text \<open>
  The \<open>run_command\<close> case of the tool handler. \<open>client\<close> is the server's client
  variable, \<open>command\<close> the argument of that name (undefined when absent) and
  \<open>options\<close> the option bag (empty when absent).
\<close>

definition run_command ::
  "environment \<Rightarrow> MongoClient option \<Rightarrow> db_handle \<Rightarrow> json \<Rightarrow> (string \<times> json) list
     \<Rightarrow> filesystem \<Rightarrow> tool_run" where
  "run_command env client db command options fs =
     (if client = None then
        \<lparr>response = Text (''Error: Not connected to MongoDB. Please use the '' @ [CHR 0x27]
            @ ''connect'' @ [CHR 0x27] @ '' tool first.''),
         tool_db_calls = [], tool_fs_after = fs\<rparr>
      else case command of
        JStr name \<Rightarrow>
          if name = [] then
            \<lparr>response = Text ''Error: Command name is required'', tool_db_calls = [],
             tool_fs_after = fs\<rparr>
          else if name = ''collStats'' then
            (let collName = js_or (js_or (get_prop options ''collection'')
                                     (get_prop options ''collStats'')) (JStr [])
             in if \<not> truthy collName then
                  \<lparr>response = Text ''Error: Collection name is required for collStats'',
                   tool_db_calls = [], tool_fs_after = fs\<rparr>
                else if truthy (get_prop options ''outputToFile'') then
                  run_tool ''Error: collStats command failed: ''
                    (executeCommand env (db_command db) name options fs)
                else if db_collection_throws db collName then
                  \<lparr>response = FailureText ''Error: collStats command failed: '' (Lib driver_error),
                   tool_db_calls = [], tool_fs_after = fs\<rparr>
                else
                  run_tool ''Error: collStats command failed: ''
                    (executeCommand env (db_command db) name options fs))
          else
            run_tool ''Error: Command execution failed: ''
              (executeCommand env (db_command db) name options fs)
      | other \<Rightarrow>
          \<lparr>response = Text ''Error: Command name is required'', tool_db_calls = [],
           tool_fs_after = fs\<rparr>)"

section \<open>Concrete inputs\<close>

text \<open>A temp directory and a clock reading, an empty file system, and one that refuses writes.\<close>

definition sample_env :: environment where
  "sample_env = \<lparr>tmpdir = ''/tmp'', now_iso = ''2024-05-06T07:08:09.123Z''\<rparr>"

definition empty_fs :: filesystem where
  "empty_fs = \<lparr>files = (\<lambda>p. None), write_refused = (\<lambda>p. False)\<rparr>"

definition readonly_fs :: filesystem where
  "readonly_fs = \<lparr>files = (\<lambda>p. None), write_refused = (\<lambda>p. True)\<rparr>"

text \<open>A database that answers every command with \<open>{ ok: 1 }\<close>, and one that never answers.\<close>

definition ok_db :: "json \<Rightarrow> json settlement" where
  "ok_db payload = Resolved (JObj [(''ok'', JNum 1)])"

definition silent_db :: "json \<Rightarrow> json settlement" where
  "silent_db payload = Unsettled"

text \<open>A driver whose connections always fail.\<close>

definition refusing_driver :: driver where
  "refusing_driver =
     \<lparr>url_accepted = (\<lambda>u. True), connect_succeeds = (\<lambda>c. False), close_succeeds = (\<lambda>c. True)\<rparr>"

text \<open>A file system with a three-byte file in the temp directory and a ten-byte file elsewhere.\<close>

definition two_files_fs :: filesystem where
  "two_files_fs =
     \<lparr>files = (\<lambda>p. if p = ''/tmp/passwd'' then Some (RegularFile (utf8_encode ''abc''))
                     else if p = ''/etc/passwd''
                       then Some (RegularFile (utf8_encode ''root:x:0:0''))
                     else None),
      write_refused = (\<lambda>p. False)\<rparr>"


section \<open>Properties of command validation\<close>

lemma keys_insert_prop: "fst ` set (insert_prop kvs k v) = insert k (fst ` set kvs)"
  by (induction kvs k v rule: insert_prop.induct) auto

lemma map_fst_replace:
  "map fst (map (\<lambda>kv. if fst kv = k then (k, v) else kv) kvs) = map fst kvs"
  by (induction kvs) auto

lemma keys_set_prop: "fst ` set (set_prop kvs k v) = insert k (fst ` set kvs)"
proof (cases "k \<in> fst ` set kvs")
  case True
  have "fst ` set (set_prop kvs k v)
        = set (map fst (map (\<lambda>kv. if fst kv = k then (k, v) else kv) kvs))"
    using True by (simp only: set_prop_def if_True set_map)
  also have "\<dots> = fst ` set kvs"
    by (simp only: map_fst_replace set_map)
  finally show ?thesis using True by auto
next
  case False
  then show ?thesis by (simp add: set_prop_def keys_insert_prop)
qed

lemma keys_spread: "fst ` set (spread base src) = fst ` set base \<union> fst ` set src"
  unfolding spread_def
  by (induction src arbitrary: base) (auto simp: keys_set_prop)

lemma keys_validation_object:
  "fst ` set (validation_object command options) = insert command (fst ` set options)"
  by (simp add: validation_object_def keys_spread)

text \<open>
  Claim C3. For every allowlisted command and every option bag with a top-level key that
  is itself an allowlisted command name other than the command being run,
  \<open>validateCommand\<close> fails with \<open>INVALID_COMMAND_STRUCTURE\<close>.
\<close>

theorem injected_command_key_rejected:
  assumes "command \<in> set ALLOWED_COMMANDS"
    and "key \<in> fst ` set options"
    and "key \<in> set ALLOWED_COMMANDS"
    and "key \<noteq> command"
  shows "\<exists>e. validateCommand command options = Inl e \<and> code e = INVALID_COMMAND_STRUCTURE"
proof -
  let ?P = "\<lambda>k. k \<noteq> command \<and> k \<in> set ALLOWED_COMMANDS"
  let ?keys = "map fst (validation_object command options)"
  have "key \<in> set ?keys"
    using assms(2) keys_validation_object [of command options] by auto
  then have "find ?P ?keys \<noteq> None"
    using assms(3,4) by (simp only: find_None_iff) blast
  then obtain k where k: "find ?P ?keys = Some k"
    by (cases "find ?P ?keys") auto
  show ?thesis
    unfolding validateCommand_def Let_def k using assms(1)
    by (simp add: createCommandError_def)
qed

theorem injected_command_key_rejected_witness:
  "''dbStats'' \<in> set ALLOWED_COMMANDS \<and> ''ping'' \<in> fst ` set [(''ping'', JNum 1)]
   \<and> ''ping'' \<in> set ALLOWED_COMMANDS \<and> ''ping'' \<noteq> ''dbStats''
   \<and> (\<exists>e. validateCommand ''dbStats'' [(''ping'', JNum 1)] = Inl e
          \<and> code e = INVALID_COMMAND_STRUCTURE)"
  using injected_command_key_rejected [of "''dbStats''" "''ping''" "[(''ping'', JNum 1)]"]
  by (simp add: ALLOWED_COMMANDS_def)

section \<open>Properties of command execution\<close>

lemma validate_connect: "validateCommand ''connect'' [] = Inr ()"
  by (simp add: validateCommand_def ALLOWED_COMMANDS_def DANGEROUS_OPERATORS_def
      validation_object_def spread_def key_pattern_def quote_def escape_char_def
      number_text_def digit_char_def)

lemma validate_disconnect: "validateCommand ''disconnect'' [] = Inr ()"
  by (simp add: validateCommand_def ALLOWED_COMMANDS_def DANGEROUS_OPERATORS_def
      validation_object_def spread_def key_pattern_def quote_def escape_char_def
      number_text_def digit_char_def)

lemma db_calls_executeCommand:
  "validateCommand command (clean_options options) = Inr ()
   \<Longrightarrow> db_calls (executeCommand env db command options fs)
       = [command_payload command (clean_options options)]"
  by (simp add: executeCommand_def Let_def split: sum.splits option.splits prod.splits)

text \<open>
  Claim C10. The allowlist contains the pseudo-commands \<open>connect\<close> and
  \<open>disconnect\<close>: \<open>validateCommand\<close> accepts both with an empty option bag, and
  \<open>executeCommand\<close> passes the payloads \<open>{connect: 1}\<close> and \<open>{disconnect: 1}\<close> to the
  database instead of rejecting the names.
\<close>

theorem pseudo_commands_forwarded:
  "''connect'' \<in> set ALLOWED_COMMANDS \<and> ''disconnect'' \<in> set ALLOWED_COMMANDS
   \<and> validateCommand ''connect'' [] = Inr ()
   \<and> validateCommand ''disconnect'' [] = Inr ()
   \<and> db_calls (executeCommand env db ''connect'' [] fs) = [JObj [(''connect'', JNum 1)]]
   \<and> db_calls (executeCommand env db ''disconnect'' [] fs) = [JObj [(''disconnect'', JNum 1)]]"
proof -
  have c: "clean_options [] = []" by (simp add: clean_options_def delete_prop_def)
  have p1: "command_payload ''connect'' [] = JObj [(''connect'', JNum 1)]"
    by (simp add: command_payload_def spread_def get_prop_def js_or_def)
  have p2: "command_payload ''disconnect'' [] = JObj [(''disconnect'', JNum 1)]"
    by (simp add: command_payload_def spread_def get_prop_def js_or_def)
  have a: "''connect'' \<in> set ALLOWED_COMMANDS" "''disconnect'' \<in> set ALLOWED_COMMANDS"
    by (simp_all add: ALLOWED_COMMANDS_def)
  show ?thesis
    using a validate_connect validate_disconnect
      db_calls_executeCommand [of "''connect''" "[]" env db fs]
      db_calls_executeCommand [of "''disconnect''" "[]" env db fs]
    by (simp add: c p1 p2)
qed
theorem pseudo_commands_forwarded_witness:
  "db_calls (executeCommand sample_env ok_db ''connect'' [] empty_fs) = [JObj [(''connect'', JNum 1)]]
   \<and> db_calls (executeCommand sample_env ok_db ''disconnect'' [] empty_fs)
       = [JObj [(''disconnect'', JNum 1)]]"
  using pseudo_commands_forwarded [of sample_env ok_db empty_fs] by simp

section \<open>Dangerous operators\<close>

lemmas eval_validate =
  validateCommand_def ALLOWED_COMMANDS_def DANGEROUS_OPERATORS_def
  validation_object_def spread_def set_prop_def is_array_index_def is_digit_def
  key_pattern_def quote_def escape_char_def number_text_def digit_char_def
  createCommandError_def get_prop_def js_or_def

text \<open>
  Claim C2, amended. For every allowlisted command and every option bag none of whose
  top-level keys is another allowlisted command: if the serialized command object contains
  the text \<open>"$token":\<close> of a dangerous operator, at any depth, then
  \<open>validateCommand\<close> fails with \<open>DANGEROUS_OPERATION\<close>, and its message names the
  first operator of \<open>DANGEROUS_OPERATORS\<close>, in the order of the list, whose text occurs:
  the operator at an index \<open>i\<close> such that no operator at a smaller index occurs.
\<close>

theorem dangerous_key_rejected:
  assumes "command \<in> set ALLOWED_COMMANDS"
    and "\<forall>k \<in> fst ` set options. k = command \<or> k \<notin> set ALLOWED_COMMANDS"
    and "d \<in> set DANGEROUS_OPERATORS"
    and "str_includes (ser [] [] (JObj (validation_object command options))) (key_pattern d)"
  shows "\<exists>i < length DANGEROUS_OPERATORS.
           str_includes (ser [] [] (JObj (validation_object command options)))
             (key_pattern (DANGEROUS_OPERATORS ! i))
           \<and> (\<forall>j < i. \<not> str_includes (ser [] [] (JObj (validation_object command options)))
                           (key_pattern (DANGEROUS_OPERATORS ! j)))
           \<and> validateCommand command options
               = Inl (createCommandError DANGEROUS_OPERATION
                   (''Command contains potentially dangerous operation: ''
                      @ DANGEROUS_OPERATORS ! i) NoDetails)"
proof -
  let ?P = "\<lambda>k. k \<noteq> command \<and> k \<in> set ALLOWED_COMMANDS"
  let ?keys = "map fst (validation_object command options)"
  let ?Q = "\<lambda>t. str_includes (ser [] [] (JObj (validation_object command options))) (key_pattern t)"
  have "set ?keys = insert command (fst ` set options)"
    using keys_validation_object [of command options] by simp
  then have "\<forall>k \<in> set ?keys. \<not> ?P k"
    using assms(2) by auto
  then have none: "find ?P ?keys = None"
    by (simp only: find_None_iff) blast
  have "find ?Q DANGEROUS_OPERATORS \<noteq> None"
    using assms(3,4) by (simp only: find_None_iff) blast
  then obtain d' where d': "find ?Q DANGEROUS_OPERATORS = Some d'"
    by (cases "find ?Q DANGEROUS_OPERATORS") auto
  then obtain i where i: "i < length DANGEROUS_OPERATORS" "?Q (DANGEROUS_OPERATORS ! i)"
      "d' = DANGEROUS_OPERATORS ! i" "\<forall>j < i. \<not> ?Q (DANGEROUS_OPERATORS ! j)"
    unfolding find_Some_iff by blast
  have "validateCommand command options
      = Inl (createCommandError DANGEROUS_OPERATION
          (''Command contains potentially dangerous operation: '' @ DANGEROUS_OPERATORS ! i)
          NoDetails)"
    unfolding validateCommand_def Let_def none d' i(3) using assms(1) by simp
  with i(1,2,4) show ?thesis by blast
qed

theorem dangerous_key_rejected_witness:
  "validateCommand ''dbStats'' [(''filter'', JObj [(''$out'', JStr ''x''), (''$where'', JStr ''1'')])]
     = Inl (createCommandError DANGEROUS_OPERATION
         ''Command contains potentially dangerous operation: $where'' NoDetails)"
proof -
  let ?options = "[(''filter'', JObj [(''$out'', JStr ''x''), (''$where'', JStr ''1'')])]"
  let ?Q = "\<lambda>t. str_includes (ser [] [] (JObj (validation_object ''dbStats'' ?options)))
                  (key_pattern t)"
  have a: "''dbStats'' \<in> set ALLOWED_COMMANDS"
    by (simp add: ALLOWED_COMMANDS_def)
  have b: "\<forall>k \<in> fst ` set ?options. k = ''dbStats'' \<or> k \<notin> set ALLOWED_COMMANDS"
    by (simp add: ALLOWED_COMMANDS_def)
  have c: "''$out'' \<in> set DANGEROUS_OPERATORS"
    by (simp add: DANGEROUS_OPERATORS_def)
  have d: "?Q ''$out''"
    by (simp add: eval_validate)
  have w: "?Q (DANGEROUS_OPERATORS ! 0)"
    by (simp add: eval_validate)
  obtain i where i: "\<forall>j < i. \<not> ?Q (DANGEROUS_OPERATORS ! j)"
    and v: "validateCommand ''dbStats'' ?options
            = Inl (createCommandError DANGEROUS_OPERATION
                (''Command contains potentially dangerous operation: ''
                   @ DANGEROUS_OPERATORS ! i) NoDetails)"
    using dangerous_key_rejected [OF a b c d] by blast
  have "i = 0"
    using i w by (cases i) auto
  then show ?thesis
    using v by (simp add: DANGEROUS_OPERATORS_def)
qed

text \<open>
  Claim C2 as stated fails: the structural check comes first, so an option bag that holds
  both another command name and a dangerous operator fails with
  \<open>INVALID_COMMAND_STRUCTURE\<close>.
\<close>

theorem dangerous_key_masked_counterexample:
  "''dbStats'' \<in> set ALLOWED_COMMANDS
   \<and> ''$where'' \<in> set DANGEROUS_OPERATORS
   \<and> str_includes (ser [] [] (JObj (validation_object ''dbStats''
         [(''ping'', JNum 1), (''$where'', JNum 1)]))) (key_pattern ''$where'')
   \<and> validateCommand ''dbStats'' [(''ping'', JNum 1), (''$where'', JNum 1)]
       = Inl (createCommandError INVALID_COMMAND_STRUCTURE
           (''Invalid command structure: Contains another command key ''
              @ [CHR 0x27] @ ''ping'' @ [CHR 0x27]) NoDetails)"
  by (simp add: eval_validate)

section \<open>Spill decision and timeout\<close>

lemma file_error_code: "code (file_error what error) = FILE_OPERATION_ERROR"
  by (cases error) (simp_all add: file_error_def createCommandError_def)

lemma writeResultToTempFile_error_code:
  "fst (writeResultToTempFile env fs data) = Inl e \<Longrightarrow> code e = FILE_OPERATION_ERROR"
  by (auto simp: writeResultToTempFile_def Let_def file_error_code split: sum.splits)

lemmas eval_paths =
  path_join_def path_normalize_def normalizeString_def normalize_step_def path_basename_def
  sanitizeFilePath_def

lemmas eval_files =
  sample_env_def empty_fs_def readonly_fs_def writeResultToTempFile_def fs_writeFile_def
  fs_stat_def fs_open_def handle_read_def os_error_def file_error_def stringify_pretty_def
  stringify_def utf8_encode_def utf8_encode_char_def

lemmas eval_execute =
  executeCommand_def command_payload_def clean_options_def delete_prop_def
  configured_timeout_def DEFAULT_TIMEOUT_def MAX_RESPONSE_SIZE_def withTimeout_def
  execution_error_def ok_db_def silent_db_def

text \<open>
  Claim C5, amended. When the database command succeeds, \<open>executeCommand\<close> spills exactly
  when the serialized result is longer than 100000 characters or \<open>outputToFile\<close> is set,
  and \<open>forceOutput\<close> is not set: it then returns the spill record, or fails with
  \<open>FILE_OPERATION_ERROR\<close> when the temp file cannot be written. In every other case, in
  particular with \<open>forceOutput\<close> set, it returns the raw result inline.
\<close>

theorem spill_decision:
  assumes "validateCommand command (clean_options options) = Inr ()"
    and "db (command_payload command (clean_options options)) = Resolved result"
    and "stringify result = Some resultJson"
  shows "outcome (executeCommand env db command options fs) =
           (if (length resultJson > 100000 \<or> truthy (get_prop options ''outputToFile''))
               \<and> \<not> truthy (get_prop options ''forceOutput'')
            then (case fst (writeResultToTempFile env fs result) of
                    Inl e \<Rightarrow> Inl (Cmd e)
                  | Inr record \<Rightarrow> Inr (Spilled record))
            else Inr (Inline result))
         \<and> (\<forall>e. fst (writeResultToTempFile env fs result) = Inl e
                \<longrightarrow> code e = FILE_OPERATION_ERROR)"
proof -
  have "outcome (executeCommand env db command options fs) =
           (if (length resultJson > 100000 \<or> truthy (get_prop options ''outputToFile''))
               \<and> \<not> truthy (get_prop options ''forceOutput'')
            then (case fst (writeResultToTempFile env fs result) of
                    Inl e \<Rightarrow> Inl (Cmd e)
                  | Inr record \<Rightarrow> Inr (Spilled record))
            else Inr (Inline result))"
    using assms
    by (cases "writeResultToTempFile env fs result")
       (simp add: executeCommand_def Let_def withTimeout_def MAX_RESPONSE_SIZE_def
          execution_error_def split: sum.splits)
  then show ?thesis
    using writeResultToTempFile_error_code by blast
qed

lemma validate_ping: "validateCommand ''ping'' [] = Inr ()"
  by (simp add: eval_validate)

lemma clean_options_control:
  "clean_options [(''outputToFile'', v)] = []"
  "clean_options [(''forceOutput'', v)] = []"
  "clean_options [(''timeout'', v)] = []"
  by (simp_all add: clean_options_def delete_prop_def)

lemma payload_ping: "command_payload ''ping'' [] = JObj [(''ping'', JNum 1)]"
  by (simp add: command_payload_def spread_def get_prop_def js_or_def)

lemma stringify_ok: "stringify (JObj [(''ok'', JNum 1)]) = Some (ser [] [] (JObj [(''ok'', JNum 1)]))"
  by (simp add: stringify_def)

lemma spill_ok:
  "writeResultToTempFile sample_env empty_fs (JObj [(''ok'', JNum 1)])
   = (Inr \<lparr>spill_filePath = ''/tmp/mongodb-result-2024-05-06T07-08-09-123Z.json'',
            spill_size = 13, spill_timestamp = ''2024-05-06T07-08-09-123Z'',
            spill_notice = ''Result exceeded size limit and was written to a temporary file.''\<rparr>,
      \<lparr>files = (\<lambda>p. None)(''/tmp/mongodb-result-2024-05-06T07-08-09-123Z.json''
                 \<mapsto> RegularFile (utf8_encode (ser ''  '' [] (JObj [(''ok'', JNum 1)])))),
       write_refused = (\<lambda>p. False)\<rparr>)"
  by (simp add: eval_files eval_paths quote_def escape_char_def number_text_def digit_char_def
        Let_def)

theorem spill_decision_witness:
  "outcome (executeCommand sample_env ok_db ''ping'' [(''outputToFile'', JBool True)] empty_fs)
     = Inr (Spilled \<lparr>spill_filePath = ''/tmp/mongodb-result-2024-05-06T07-08-09-123Z.json'',
            spill_size = 13, spill_timestamp = ''2024-05-06T07-08-09-123Z'',
            spill_notice = ''Result exceeded size limit and was written to a temporary file.''\<rparr>)"
proof -
  have v: "validateCommand ''ping'' (clean_options [(''outputToFile'', JBool True)]) = Inr ()"
    by (simp add: clean_options_control validate_ping)
  have d: "ok_db (command_payload ''ping'' (clean_options [(''outputToFile'', JBool True)]))
           = Resolved (JObj [(''ok'', JNum 1)])"
    by (simp add: ok_db_def)
  show ?thesis
    using v d stringify_ok
      spill_decision [of "''ping''" "[(''outputToFile'', JBool True)]" ok_db
        "JObj [(''ok'', JNum 1)]" "ser [] [] (JObj [(''ok'', JNum 1)])" sample_env empty_fs]
    by (simp add: spill_ok get_prop_def)
qed

text \<open>
  Claim C5 as stated fails where the temp file cannot be written: the database command has
  succeeded and \<open>outputToFile\<close> is set, yet no spill record is returned.
\<close>

theorem spill_write_failure_counterexample:
  "ok_db (command_payload ''ping'' (clean_options [(''outputToFile'', JBool True)]))
     = Resolved (JObj [(''ok'', JNum 1)])
   \<and> truthy (get_prop [(''outputToFile'', JBool True)] ''outputToFile'')
   \<and> \<not> truthy (get_prop [(''outputToFile'', JBool True)] ''forceOutput'')
   \<and> outcome (executeCommand sample_env ok_db ''ping'' [(''outputToFile'', JBool True)] readonly_fs)
       = Inl (Cmd (createCommandError FILE_OPERATION_ERROR
           (''Failed to write results to temp file: EACCES: permission denied, open ''
              @ [CHR 0x27] @ ''/tmp/mongodb-result-2024-05-06T07-08-09-123Z.json'' @ [CHR 0x27])
           (Cause (ErrorInstance (''EACCES: permission denied, open ''
              @ [CHR 0x27] @ ''/tmp/mongodb-result-2024-05-06T07-08-09-123Z.json'' @ [CHR 0x27])
              True))))"
  by (simp add: eval_execute clean_options_control validate_ping payload_ping stringify_def
        get_prop_def eval_files eval_paths createCommandError_def)

text \<open>
  Claim C8. When the database operation has not settled by the time the timer fires,
  \<open>executeCommand\<close> fails with \<open>TIMEOUT_ERROR\<close>, and the details carry the configured
  timeout: \<open>options.timeout\<close> when it is a number, 30000 otherwise.
\<close>

theorem timeout_error:
  assumes "validateCommand command (clean_options options) = Inr ()"
    and "db (command_payload command (clean_options options)) = Unsettled"
  shows "outcome (executeCommand env db command options fs)
           = Inl (Cmd (createCommandError TIMEOUT_ERROR
               (''Command '' @ [CHR 0x27] @ command @ [CHR 0x27] @ '' timed out after ''
                  @ number_text (configured_timeout options) @ ''ms'')
               (TimeoutMs (configured_timeout options))))
         \<and> configured_timeout options
             = (case get_prop options ''timeout'' of JNum n \<Rightarrow> n | _ \<Rightarrow> 30000)"
  using assms
  by (simp add: executeCommand_def Let_def withTimeout_def execution_error_def
        configured_timeout_def DEFAULT_TIMEOUT_def split: json.splits)

theorem timeout_error_witness:
  "outcome (executeCommand sample_env silent_db ''ping'' [(''timeout'', JNum 5)] empty_fs)
     = Inl (Cmd (createCommandError TIMEOUT_ERROR
         (''Command '' @ [CHR 0x27] @ ''ping'' @ [CHR 0x27] @ '' timed out after 5ms'')
         (TimeoutMs 5)))
   \<and> outcome (executeCommand sample_env silent_db ''ping'' [(''timeout'', JStr ''5'')] empty_fs)
     = Inl (Cmd (createCommandError TIMEOUT_ERROR
         (''Command '' @ [CHR 0x27] @ ''ping'' @ [CHR 0x27] @ '' timed out after 30000ms'')
         (TimeoutMs 30000)))"
proof -
  have v: "validateCommand ''ping'' (clean_options [(''timeout'', x)]) = Inr ()" for x
    by (simp add: clean_options_control validate_ping)
  have d: "silent_db (command_payload ''ping'' (clean_options [(''timeout'', x)])) = Unsettled" for x
    by (simp add: silent_db_def)
  have s: "number_text 5 = ''5''" "number_text 30000 = ''30000''"
    by (simp_all add: number_text_def digit_char_def)
  show ?thesis
    using v d
      timeout_error [of "''ping''" "[(''timeout'', JNum 5)]" silent_db sample_env empty_fs]
      timeout_error [of "''ping''" "[(''timeout'', JStr ''5'')]" silent_db sample_env empty_fs]
    by (simp add: get_prop_def s)
qed

section \<open>Connecting\<close>

text \<open>
  Claim C9, amended. \<open>connectToMongoDB\<close> never throws. It returns true exactly when
  closing the previous client (if there is one), constructing the new client and connecting
  it all succeed, and then the new client and its database handle are stored. Otherwise it
  returns false; if closing the previous client failed, both variables are left as they
  were; if not, no database handle is stored, and the stored client is null when the
  constructor refused the URL, and the new, unconnected client when connecting failed.
\<close>

theorem connect_outcome:
  assumes "mongoClient st = None \<longrightarrow> mongoDb st = None"
  shows "\<exists>connected st'.
           connectToMongoDB drv url st = (Inr connected, st')
           \<and> (connected \<longleftrightarrow>
                  (\<forall>old. mongoClient st = Some old \<longrightarrow> close_succeeds drv old)
                  \<and> url_accepted drv url \<and> connect_succeeds drv (Client url))
           \<and> (connected \<longrightarrow>
                  mongoClient st' = Some (Client url) \<and> mongoDb st' = Some (DbOf (Client url)))
           \<and> (\<not> connected \<longrightarrow>
                  (if \<exists>old. mongoClient st = Some old \<and> \<not> close_succeeds drv old
                   then st' = st
                   else mongoDb st' = None \<and> \<not> isMongoConnected st'
                        \<and> mongoClient st'
                            = (if url_accepted drv url then Some (Client url) else None)))"
  using assms
  by (cases "mongoClient st")
     (auto simp: connectToMongoDB_def connect_try_def isMongoConnected_def Let_def)

theorem connect_outcome_witness:
  "connectToMongoDB refusing_driver ''mongodb://db:27017''
     \<lparr>mongoClient = Some (Client ''mongodb://old''),
      mongoDb = Some (DbOf (Client ''mongodb://old''))\<rparr>
   = (Inr False, \<lparr>mongoClient = Some (Client ''mongodb://db:27017''), mongoDb = None\<rparr>)"
  using connect_outcome [of "\<lparr>mongoClient = Some (Client ''mongodb://old''),
             mongoDb = Some (DbOf (Client ''mongodb://old''))\<rparr>" refusing_driver
             "''mongodb://db:27017''"]
  by (cases "snd (connectToMongoDB refusing_driver ''mongodb://db:27017''
            \<lparr>mongoClient = Some (Client ''mongodb://old''),
             mongoDb = Some (DbOf (Client ''mongodb://old''))\<rparr>)")
     (auto simp: refusing_driver_def)

text \<open>
  Claim C9 as stated fails: when the new connection cannot be opened, the new client stays
  in the module variable.
\<close>

theorem connect_failure_counterexample:
  "connectToMongoDB refusing_driver ''mongodb://db:27017'' \<lparr>mongoClient = None, mongoDb = None\<rparr>
     = (Inr False, \<lparr>mongoClient = Some (Client ''mongodb://db:27017''), mongoDb = None\<rparr>)
   \<and> getMongoClient \<lparr>mongoClient = Some (Client ''mongodb://db:27017''), mongoDb = None\<rparr>
       \<noteq> None"
  by (simp add: connectToMongoDB_def connect_try_def refusing_driver_def getMongoClient_def)

section \<open>collStats without a collection\<close>

text \<open>
  Claim C4. A \<open>run_command\<close> request for \<open>collStats\<close> whose option bag holds neither a
  non-empty \<open>collection\<close> nor a non-empty \<open>collStats\<close> is answered with an error
  before \<open>executeCommand\<close> is reached: no database command is issued and no file written.
\<close>

theorem collStats_requires_collection:
  assumes "\<not> truthy (get_prop options ''collection'')"
    and "\<not> truthy (get_prop options ''collStats'')"
  shows "response (run_command env client db (JStr ''collStats'') options fs)
           = (if client = None
              then Text (''Error: Not connected to MongoDB. Please use the '' @ [CHR 0x27]
                     @ ''connect'' @ [CHR 0x27] @ '' tool first.'')
              else Text ''Error: Collection name is required for collStats'')
         \<and> tool_db_calls (run_command env client db (JStr ''collStats'') options fs) = []
         \<and> tool_fs_after (run_command env client db (JStr ''collStats'') options fs) = fs"
  using assms by (simp add: run_command_def js_or_def Let_def)

theorem collStats_requires_collection_witness:
  "response (run_command sample_env (Some (Client ''mongodb://db'')) 
       \<lparr>db_command = ok_db, db_collection_throws = (\<lambda>n. False)\<rparr>
       (JStr ''collStats'') [(''collection'', JStr []), (''scale'', JNum 1024)] empty_fs)
     = Text ''Error: Collection name is required for collStats''
   \<and> tool_db_calls (run_command sample_env (Some (Client ''mongodb://db''))
       \<lparr>db_command = ok_db, db_collection_throws = (\<lambda>n. False)\<rparr>
       (JStr ''collStats'') [(''collection'', JStr []), (''scale'', JNum 1024)] empty_fs) = []"
  using collStats_requires_collection [of "[(''collection'', JStr []), (''scale'', JNum 1024)]"
      sample_env "Some (Client ''mongodb://db'')"
      "\<lparr>db_command = ok_db, db_collection_throws = (\<lambda>n. False)\<rparr>" empty_fs]
  by (simp add: get_prop_def)

section \<open>Reading a chunk\<close>

text \<open>
  Claim C1: for every caller-supplied path, the path that \<open>readFileChunk\<close> opens is the
  bare file name re-rooted under the temp directory, so nothing outside the temp directory
  is opened. The sanitizer misses the path \<open>..\<close>: normalizing leaves it, its base name
  is \<open>..\<close> again, and joining that to the temp directory gives the parent of the temp
  directory, which is then the path opened.
\<close>

theorem sanitize_dotdot_escapes:
  "sanitizeFilePath sample_env ''..'' = ''/''
   \<and> \<not> inside_directory (tmpdir sample_env) (sanitizeFilePath sample_env ''..'')
   \<and> sanitizeFilePath \<lparr>tmpdir = ''/var/tmp'', now_iso = []\<rparr> ''logs/../..'' = ''/var''"
  by (simp add: eval_paths sample_env_def inside_directory_def)

text \<open>
  Claim C7: a successful \<open>readFileChunk\<close> reports as \<open>totalSize\<close> the size of the
  sanitized file that it opens and reads, and \<open>hasMore\<close> says whether bytes of that file
  remain. The code stats the caller's path instead: at \<open>/etc/passwd\<close> the file opened
  and read is \<open>/tmp/passwd\<close>, of three bytes, but the size reported is that of
  \<open>/etc/passwd\<close>, and \<open>hasMore\<close> is computed from it.
\<close>

theorem chunk_stats_unsanitized_path:
  "readFileChunk sample_env two_files_fs ''/etc/passwd'' 0 50000
     = Some (Inr \<lparr>chunk = [97, 98, 99], chunk_offset = 0, chunk_length = 3, totalSize = 10,
                  hasMore = True\<rparr>)
   \<and> sanitizeFilePath sample_env ''/etc/passwd'' = ''/tmp/passwd''
   \<and> fs_stat two_files_fs (sanitizeFilePath sample_env ''/etc/passwd'') = Inr 3"
  by (simp add: readFileChunk_def eval_paths eval_files two_files_fs_def utf8_decode_def
        utf8_step_def utf8_lead_def utf8_init_def Let_def)

section \<open>The path of a spilled result\<close>

lemma ends_with_name_iff:
  "ends_with_name name p \<longleftrightarrow> (\<exists>pre. p = pre @ name \<and> (pre = [] \<or> last pre = CHR ''/''))"
  by (auto simp: ends_with_name_def Let_def)

lemma split_slash_not_Nil: "split_slash s \<noteq> []"
  by (induction s) (auto split: list.splits)

lemma split_slash_plain: "CHR ''/'' \<notin> set s \<Longrightarrow> split_slash s = [s]"
  by (induction s) auto

lemma split_slash_append:
  "split_slash (a @ CHR ''/'' # b) = split_slash a @ split_slash b"
proof (induction a)
  case Nil
  then show ?case by simp
next
  case (Cons c a)
  obtain s ss where s: "split_slash a = s # ss"
    using split_slash_not_Nil [of a] by (cases "split_slash a") auto
  show ?case
    using Cons s by simp
qed

lemma join_snoc: "join sep (xs @ [x]) = (if xs = [] then x else join sep xs @ sep @ x)"
  by (induction sep xs rule: join.induct) auto

lemma normalize_step_name:
  "is_file_name name \<Longrightarrow> normalize_step up st name = name # st"
  by (simp add: normalize_step_def is_file_name_def)

lemma normalizeString_name:
  assumes "is_file_name name"
  shows "normalizeString name up = name"
  using assms
  by (simp add: normalizeString_def split_slash_plain normalize_step_name is_file_name_def)

lemma normalizeString_dir_name:
  assumes "is_file_name name"
  shows "\<exists>pre. normalizeString (q @ CHR ''/'' # name) up = pre @ name
               \<and> (pre = [] \<or> last pre = CHR ''/'')"
proof -
  let ?st = "foldl (normalize_step up) [] (split_slash q)"
  have "split_slash (q @ CHR ''/'' # name) = split_slash q @ [name]"
    using assms by (simp add: split_slash_append split_slash_plain is_file_name_def)
  then have "normalizeString (q @ CHR ''/'' # name) up = join ''/'' (rev ?st @ [name])"
    using assms by (simp add: normalizeString_def normalize_step_name)
  also have "\<dots> = (if rev ?st = [] then name else (join ''/'' (rev ?st) @ ''/'') @ name)"
    by (simp add: join_snoc)
  finally show ?thesis
    by (metis append_Nil last_snoc)
qed

lemma path_normalize_keeps_name:
  assumes "is_file_name name" and "ends_with_name name p"
  shows "ends_with_name name (path_normalize p)"
proof -
  from assms(2) obtain pre where p: "p = pre @ name" and pre: "pre = [] \<or> last pre = CHR ''/''"
    by (auto simp: ends_with_name_iff)
  have "name \<noteq> []" and noslash: "CHR ''/'' \<notin> set name"
    using assms(1) by (auto simp: is_file_name_def)
  then have name: "name \<noteq> []" "last name \<noteq> CHR ''/''"
    by (metis last_in_set)+
  have pne: "p \<noteq> []" and lastp: "last p \<noteq> CHR ''/''"
    using p name by auto
  obtain pre' where n: "normalizeString p (hd p \<noteq> CHR ''/'') = pre' @ name"
    and pre': "pre' = [] \<or> last pre' = CHR ''/''"
  proof (cases "pre = []")
    case True
    then show ?thesis
      using that [of "[]"] p normalizeString_name [OF assms(1)] by simp
  next
    case False
    then obtain q where "pre = q @ [CHR ''/'']"
      using pre by (metis append_butlast_last_id)
    then have "p = q @ CHR ''/'' # name"
      using p by simp
    then show ?thesis
      using that normalizeString_dir_name [OF assms(1), of q] by metis
  qed
  have nne: "normalizeString p (hd p \<noteq> CHR ''/'') \<noteq> []"
    using n name by simp
  have "path_normalize p = ((if hd p = CHR ''/'' then ''/'' else []) @ pre') @ name"
    using pne lastp nne n by (simp add: path_normalize_def Let_def)
  moreover have "(if hd p = CHR ''/'' then ''/'' else []) @ pre' = []
                 \<or> last ((if hd p = CHR ''/'' then ''/'' else []) @ pre') = CHR ''/''"
    using pre' by auto
  ultimately show ?thesis
    unfolding ends_with_name_iff by blast
qed

lemma path_basename_of_name:
  assumes "is_file_name name" and "ends_with_name name p"
  shows "path_basename p = name"
proof -
  from assms(2) obtain pre where p: "p = pre @ name" and pre: "pre = [] \<or> last pre = CHR ''/''"
    by (auto simp: ends_with_name_iff)
  have name: "name \<noteq> []" "CHR ''/'' \<notin> set name"
    using assms(1) by (auto simp: is_file_name_def)
  have hd: "hd (rev name) \<noteq> CHR ''/''"
    using name by (metis hd_rev last_in_set)
  have d: "dropWhile (\<lambda>c. c = CHR ''/'') (rev name @ rev pre) = rev name @ rev pre"
    using name hd by (cases "rev name") auto
  have t: "takeWhile (\<lambda>c. c \<noteq> CHR ''/'') (rev name @ rev pre) = rev name"
  proof (cases "pre = []")
    case True
    then show ?thesis using name by (auto simp: takeWhile_eq_all_conv)
  next
    case False
    then have "hd (rev pre) = CHR ''/''" "rev pre \<noteq> []"
      using pre by (simp_all add: hd_rev)
    then obtain rest where r: "rev pre = CHR ''/'' # rest"
      by (cases "rev pre") auto
    have "takeWhile (\<lambda>c. c \<noteq> CHR ''/'') (rev name @ rev pre)
          = rev name @ takeWhile (\<lambda>c. c \<noteq> CHR ''/'') (rev pre)"
      using name by (intro takeWhile_append2) auto
    then show ?thesis
      by (simp add: r)
  qed
  show ?thesis
    by (simp add: path_basename_def p d t)
qed

lemma path_join_file_name:
  assumes "is_file_name name"
  shows "ends_with_name name (path_join dir name)"
proof -
  have "name \<noteq> []" using assms by (simp add: is_file_name_def)
  then have j: "path_join dir name = path_normalize (if dir = [] then name else dir @ ''/'' @ name)"
    by (simp add: path_join_def Let_def)
  have "ends_with_name name (if dir = [] then name else dir @ ''/'' @ name)"
    unfolding ends_with_name_iff
    by (cases "dir = []") (auto intro: exI [of _ "dir @ ''/''"])
  then show ?thesis
    using path_normalize_keeps_name [OF assms] j by presburger
qed

lemma sanitize_spilled_path:
  assumes "is_file_name name"
  shows "sanitizeFilePath env (path_join (tmpdir env) name) = path_join (tmpdir env) name"
proof -
  have "ends_with_name name (path_normalize (path_join (tmpdir env) name))"
    using path_normalize_keeps_name [OF assms path_join_file_name [OF assms]] .
  then have "path_basename (path_normalize (path_join (tmpdir env) name)) = name"
    using path_basename_of_name [OF assms] by blast
  then show ?thesis
    by (simp add: sanitizeFilePath_def Let_def)
qed

section \<open>Spilling and reading back\<close>

lemma string_of_nat_not_Nil: "string_of_nat n \<noteq> []"
  by (subst string_of_nat.simps) simp

lemma ser_not_Nil: "v \<noteq> JUndefined \<Longrightarrow> ser ind cur v \<noteq> []"
  by (cases v) (simp_all add: number_text_def string_of_nat_not_Nil quote_def Let_def)

lemma spill_file_name:
  assumes "CHR ''/'' \<notin> set stamp"
  shows "is_file_name (''mongodb-result-''
           @ map (\<lambda>c. if c = CHR '':'' \<or> c = CHR ''.'' then CHR ''-'' else c) stamp @ ''.json'')"
  using assms by (auto simp: is_file_name_def)

lemma fs_writeFile_success:
  assumes "fs_writeFile fs path data = Inr fs'"
  shows "\<exists>text. data = Some text
           \<and> fs' = fs\<lparr>files := (files fs)(path \<mapsto> RegularFile (utf8_encode text))\<rparr>"
  using assms
  by (auto simp: fs_writeFile_def split: option.splits fs_node.splits if_splits)

lemma writeResultToTempFile_success:
  assumes "writeResultToTempFile env fs data = (Inr record, fs')"
    and "CHR ''/'' \<notin> set (now_iso env)"
  shows "data \<noteq> JUndefined"
    and "files fs' (spill_filePath record) = Some (RegularFile (utf8_encode (ser ''  '' [] data)))"
    and "spill_size record = length (utf8_encode (ser ''  '' [] data))"
    and "sanitizeFilePath env (spill_filePath record) = spill_filePath record"
proof -
  let ?name = "''mongodb-result-''
     @ map (\<lambda>c. if c = CHR '':'' \<or> c = CHR ''.'' then CHR ''-'' else c) (now_iso env) @ ''.json''"
  let ?path = "path_join (tmpdir env) ?name"
  obtain fs1 where w: "fs_writeFile fs ?path (stringify_pretty data) = Inr fs1"
    using assms(1)
    by (cases "fs_writeFile fs ?path (stringify_pretty data)")
       (auto simp: writeResultToTempFile_def Let_def)
  then obtain written where t: "stringify_pretty data = Some written"
    and fs1: "fs1 = fs\<lparr>files := (files fs)(?path \<mapsto> RegularFile (utf8_encode written))\<rparr>"
    using fs_writeFile_success by blast
  show d: "data \<noteq> JUndefined"
    using t by (auto simp: stringify_pretty_def split: if_splits)
  have written: "written = ser ''  '' [] data"
    using t by (auto simp: stringify_pretty_def split: if_splits)
  have st: "fs_stat fs1 ?path = Inr (length (utf8_encode written))"
    by (simp add: fs_stat_def fs1)
  have r: "spill_filePath record = ?path \<and> fs' = fs1
           \<and> spill_size record = length (utf8_encode written)"
    using assms(1) w st by (auto simp: writeResultToTempFile_def Let_def)
  show "files fs' (spill_filePath record) = Some (RegularFile (utf8_encode (ser ''  '' [] data)))"
    using r fs1 written by simp
  show "spill_size record = length (utf8_encode (ser ''  '' [] data))"
    using r written by simp
  show "sanitizeFilePath env (spill_filePath record) = spill_filePath record"
    using r sanitize_spilled_path [OF spill_file_name [OF assms(2)], of env] by simp
qed

lemma readFileChunk_own_file:
  assumes "sanitizeFilePath env path = path"
    and "files fs path = Some (RegularFile bytes)"
    and "0 < c" and "c < 2147483648"
  shows "readFileChunk env fs path offset c
         = Some (Inr \<lparr>chunk = utf8_decode (take c (drop offset bytes)), chunk_offset = offset,
                chunk_length = length (take c (drop offset bytes)), totalSize = length bytes,
                hasMore = (offset + length (take c (drop offset bytes)) < length bytes)\<rparr>)"
  using assms
  by (simp add: readFileChunk_def Let_def fs_open_def fs_stat_def handle_read_def)

subsection \<open>Decoding what was encoded\<close>

lemma utf8_encode_append: "utf8_encode (a @ b) = utf8_encode a @ utf8_encode b"
  by (simp add: utf8_encode_def)

lemma utf8_encode_concat: "utf8_encode (concat ts) = concat (map utf8_encode ts)"
  by (induction ts) (simp_all add: utf8_encode_append utf8_encode_def)

lemma byte_uint: "k < 256 \<Longrightarrow> uint (of_nat k :: byte) = int k"
  by (simp add: uint_nat unat_of_nat)

lemma two_byte_quotient: "128 \<le> (n::nat) \<Longrightarrow> n < 256 \<Longrightarrow> n div 64 = 2 \<or> n div 64 = 3"
proof -
  assume a: "128 \<le> n" "n < 256"
  have "2 \<le> n div 64"
    using a(1) by (simp add: less_eq_div_iff_mult_less_eq)
  moreover have "n div 64 < 4"
    using a(2) by (simp add: div_less_iff_less_mult)
  ultimately show ?thesis by linarith
qed

lemma continuation_bits: "(r::nat) < 64 \<Longrightarrow> (128 + int r) mod 64 = int r"
proof -
  assume "r < 64"
  have "(128 + int r) mod 64 = (int r + 64 * 2) mod 64"
    by (simp add: add.commute)
  also have "\<dots> = int r mod 64"
    by (simp only: mod_mult_self2)
  also have "\<dots> = int r"
    using \<open>r < 64\<close> by simp
  finally show ?thesis .
qed

lemma utf8_run_char:
  "utf8_run utf8_init (utf8_encode_char c @ bytes) = of_char c # utf8_run utf8_init bytes"
proof (cases "(of_char c :: nat) < 128")
  case True
  then have "uint (of_nat (of_char c) :: byte) = int (of_char c)"
    by (simp add: byte_uint)
  moreover have "int (of_char c) < 128"
    using True by simp
  ultimately show ?thesis
    using True
    by (simp add: utf8_encode_char_def utf8_step_def utf8_lead_def utf8_init_def of_nat_of_char)
next
  case False
  define n where "n = (of_char c :: nat)"
  define q where "q = n div 64"
  define r where "r = n mod 64"
  have n: "128 \<le> n" "n < 256"
    using False by (simp_all add: n_def)
  have q: "q = 2 \<or> q = 3"
    unfolding q_def using n by (rule two_byte_quotient)
  have r: "r < 64"
    by (simp add: r_def)
  define w1 where "w1 = (of_nat (192 + q) :: byte)"
  define w2 where "w2 = (of_nat (128 + r) :: byte)"
  have b1: "uint w1 = 192 + int q"
    unfolding w1_def using q byte_uint [of "192 + q"] by auto
  have b2: "uint w2 = 128 + int r"
    unfolding w2_def using r byte_uint [of "128 + r"] by auto
  have v: "int q * 64 + int r = int n"
    unfolding q_def r_def
    by (metis of_nat_add of_nat_mult of_nat_numeral div_mult_mod_eq)
  have lead: "utf8_step utf8_init (192 + int q) = ([], (int q, Suc 0, 0x80, 0xBF))"
    using q by (auto simp: utf8_step_def utf8_init_def utf8_lead_def)
  have cont: "utf8_step (int q, Suc 0, 0x80, 0xBF) (128 + int r) = ([int n], utf8_init)"
    using r v by (simp add: utf8_step_def continuation_bits)
  have "utf8_encode_char c = [w1, w2]"
    using False by (simp add: utf8_encode_char_def Let_def n_def q_def r_def w1_def w2_def)
  then have "utf8_run utf8_init (utf8_encode_char c @ bytes) = int n # utf8_run utf8_init bytes"
    by (simp add: b1 b2 lead cont)
  then show ?thesis
    by (simp add: n_def of_nat_of_char)
qed

lemma utf8_decode_encode: "utf8_decode (utf8_encode t) = map of_char t"
proof (induction t)
  case Nil
  then show ?case by (simp add: utf8_decode_def utf8_encode_def utf8_init_def)
next
  case (Cons c t)
  have "utf8_encode (c # t) = utf8_encode_char c @ utf8_encode t"
    by (simp add: utf8_encode_def)
  then show ?case
    using Cons by (simp add: utf8_decode_def utf8_run_char)
qed

subsection \<open>Chunks\<close>

lemma concat_slices: "concat (map (\<lambda>k. take c (drop (k * c) xs)) [0 ..< n]) = take (n * c) xs"
proof (induction n)
  case 0
  then show ?case by simp
next
  case (Suc n)
  have "Suc n * c = n * c + c"
    by simp
  then have "take (Suc n * c) xs = take (n * c) xs @ take c (drop (n * c) xs)"
    by (simp only: take_add)
  then show ?case using Suc by simp
qed

lemma chunk_count_covers: "0 < c \<Longrightarrow> (n::nat) \<le> ((n + c - 1) div c) * c"
proof -
  assume c: "0 < c"
  have "n + c - 1 = ((n + c - 1) div c) * c + (n + c - 1) mod c"
    by simp
  moreover have "(n + c - 1) mod c < c"
    using c by simp
  ultimately show ?thesis
    using c by linarith
qed

lemma chunk_index_iff:
  assumes "0 < c"
  shows "(k::nat) < (n + c - 1) div c \<longleftrightarrow> k * c < n"
proof -
  have "k < (n + c - 1) div c \<longleftrightarrow> Suc k \<le> (n + c - 1) div c"
    by auto
  also have "\<dots> \<longleftrightarrow> Suc k * c \<le> n + c - 1"
    using assms by (simp only: less_eq_div_iff_mult_less_eq)
  also have "\<dots> \<longleftrightarrow> k * c < n"
    using assms by auto
  finally show ?thesis .
qed

lemma more_after_chunk:
  assumes "0 < c" and "k * c < length xs"
  shows "(k * c + length (take c (drop (k * c) xs)) < length xs)
         \<longleftrightarrow> Suc k < (length xs + c - 1) div c"
proof -
  have "length (take c (drop (k * c) xs)) = min c (length xs - k * c)"
    by simp
  then have "(k * c + length (take c (drop (k * c) xs)) < length xs) \<longleftrightarrow> Suc k * c < length xs"
    using assms(2) by (auto simp: min_def)
  then show ?thesis
    using chunk_index_iff [OF assms(1), of "Suc k" "length xs"] by simp
qed

lemma butlast_upt_0: "butlast [0 ..< n] = [0 ..< n - 1]"
  by (cases n) simp_all

lemma char_starts_iff:
  "a \<in> set (char_starts s) \<longleftrightarrow> (\<exists>i \<le> length s. a = length (utf8_encode (take i s)))"
  unfolding char_starts_def set_map set_upt
  by (auto simp: less_Suc_eq_le)

lemma encoded_prefix_mono:
  assumes "j \<le> i"
  shows "length (utf8_encode (take j s)) \<le> length (utf8_encode (take i s))"
proof -
  have "take i s = take j s @ drop j (take i s)"
    using assms by (metis append_take_drop_id min.absorb1 take_take)
  then have "utf8_encode (take i s) = utf8_encode (take j s) @ utf8_encode (drop j (take i s))"
    by (metis utf8_encode_append)
  then show ?thesis by simp
qed

lemma slice_between_starts:
  assumes "a \<in> set (char_starts s)" and "b \<in> set (char_starts s)" and "a < b"
  shows "\<exists>t. take (b - a) (drop a (utf8_encode s)) = utf8_encode t"
proof -
  obtain i where i: "i \<le> length s" "a = length (utf8_encode (take i s))"
    using assms(1) char_starts_iff by blast
  obtain j where j: "j \<le> length s" "b = length (utf8_encode (take j s))"
    using assms(2) char_starts_iff by blast
  have ij: "i \<le> j"
  proof (rule ccontr)
    assume "\<not> i \<le> j"
    then have "b \<le> a"
      using encoded_prefix_mono [of j i s] i(2) j(2) by simp
    then show False using assms(3) by simp
  qed
  let ?t = "drop i (take j s)"
  have tj: "take j s = take i s @ ?t"
    using ij by (metis append_take_drop_id min.absorb1 take_take)
  have "s = take j s @ drop j s"
    by simp
  then have "utf8_encode s = utf8_encode (take i s) @ utf8_encode ?t @ utf8_encode (drop j s)"
    using tj by (metis utf8_encode_append append_assoc)
  then have d: "drop a (utf8_encode s) = utf8_encode ?t @ utf8_encode (drop j s)"
    using i(2) by simp
  have "b = a + length (utf8_encode ?t)"
    using tj i(2) j(2) by (metis utf8_encode_append length_append)
  then have "take (b - a) (drop a (utf8_encode s)) = utf8_encode ?t"
    using d by simp
  then show ?thesis by blast
qed

lemma chunk_is_encoding:
  assumes "0 < c" and "chunks_keep_characters s c" and "k * c < length (utf8_encode s)"
  shows "\<exists>t. take c (drop (k * c) (utf8_encode s)) = utf8_encode t"
proof -
  let ?bytes = "utf8_encode s"
  let ?n = "(length ?bytes + c - 1) div c"
  have starts: "m * c \<in> set (char_starts s)" if "m * c < length ?bytes" for m
  proof -
    have "m < ?n"
      using that chunk_index_iff [OF assms(1)] by blast
    then have "m * c \<in> set (chunk_offsets (length ?bytes) c)"
      by (auto simp: chunk_offsets_def)
    then show ?thesis
      using assms(2) by (simp add: chunks_keep_characters_def list_all_iff)
  qed
  have last: "length ?bytes \<in> set (char_starts s)"
    unfolding char_starts_iff by (rule exI [of _ "length s"]) simp
  let ?b = "min (Suc k * c) (length ?bytes)"
  have b: "?b \<in> set (char_starts s)"
    using starts [of "Suc k"] last by (cases "Suc k * c < length ?bytes") (simp_all add: min_def)
  have ab: "k * c < ?b"
    using assms(1,3) by simp
  have "take c (drop (k * c) ?bytes) = take (?b - k * c) (drop (k * c) ?bytes)"
  proof (cases "Suc k * c < length ?bytes")
    case True
    then show ?thesis by (simp add: min_def)
  next
    case False
    then have "length (drop (k * c) ?bytes) \<le> c"
      by simp
    moreover have "length (drop (k * c) ?bytes) \<le> ?b - k * c"
      using False by (simp add: min_def)
    ultimately show ?thesis
      by simp
  qed
  then show ?thesis
    using slice_between_starts [OF starts [OF assms(3)] b ab] by simp
qed

lemma utf8_encode_not_Nil: "s \<noteq> [] \<Longrightarrow> utf8_encode s \<noteq> []"
  by (cases s) (auto simp: utf8_encode_def utf8_encode_char_def Let_def)

text \<open>
  Claim C6, amended. For every chunk size \<open>c\<close> with \<open>0 < c < 2^31\<close> such that no chunk
  offset 0, c, 2c, ... below the file size falls inside a character of several bytes:
  spilling a value and reading the file back in chunks of \<open>c\<close> bytes at these offsets
  gives chunks whose concatenation is the serialized text that was written; the last chunk
  reports \<open>hasMore = false\<close> and every earlier one \<open>hasMore = true\<close>.
\<close>

theorem spill_read_back:
  assumes "writeResultToTempFile env fs data = (Inr record, fs')"
    and "CHR ''/'' \<notin> set (now_iso env)"
    and "0 < c" and "c < 2147483648"
    and "chunks_keep_characters (ser ''  '' [] data) c"
  shows "\<exists>rs. read_back env fs' (spill_filePath record) (spill_size record) c
                = map (\<lambda>r. Some (Inr r)) rs
              \<and> concat (map chunk rs) = map of_char (ser ''  '' [] data)
              \<and> rs \<noteq> [] \<and> \<not> hasMore (last rs) \<and> (\<forall>r \<in> set (butlast rs). hasMore r)"
proof -
  let ?s = "ser ''  '' [] data"
  let ?bytes = "utf8_encode ?s"
  let ?path = "spill_filePath record"
  let ?n = "(length ?bytes + c - 1) div c"
  let ?slice = "\<lambda>k. take c (drop (k * c) ?bytes)"
  let ?r = "\<lambda>k. \<lparr>chunk = utf8_decode (?slice k), chunk_offset = k * c,
                  chunk_length = length (?slice k), totalSize = length ?bytes,
                  hasMore = (Suc k < ?n)\<rparr>"
  note w = writeResultToTempFile_success [OF assms(1,2)]
  have pos: "0 < length ?bytes"
    using utf8_encode_not_Nil [OF ser_not_Nil [OF w(1)]] by simp
  have npos: "0 < ?n"
    using pos chunk_index_iff [OF assms(3), of 0 "length ?bytes"] by simp
  have one: "readFileChunk env fs' ?path (k * c) c = Some (Inr (?r k))" if "k < ?n" for k
  proof -
    have "k * c < length ?bytes"
      using that chunk_index_iff [OF assms(3)] by blast
    then have m: "(k * c + length (?slice k) < length ?bytes) = (Suc k < ?n)"
      using more_after_chunk [OF assms(3)] by blast
    show ?thesis
      by (simp only: readFileChunk_own_file [OF w(4) w(2) assms(3,4)] m)
  qed
  have "map (\<lambda>offset. readFileChunk env fs' ?path offset c) (map (\<lambda>k. k * c) [0 ..< ?n])
        = map (\<lambda>k. readFileChunk env fs' ?path (k * c) c) [0 ..< ?n]"
    by (simp only: map_map comp_def)
  also have "\<dots> = map (\<lambda>k. Some (Inr (?r k))) [0 ..< ?n]"
    by (rule map_cong) (simp_all only: one atLeastLessThan_iff set_upt)
  also have "\<dots> = map (\<lambda>r. Some (Inr r)) (map ?r [0 ..< ?n])"
    by (simp only: map_map comp_def)
  finally have rb: "read_back env fs' ?path (spill_size record) c
                    = map (\<lambda>r. Some (Inr r)) (map ?r [0 ..< ?n])"
    by (simp only: read_back_def chunk_offsets_def w(3))
  have "\<forall>k. \<exists>t. k < ?n \<longrightarrow> ?slice k = utf8_encode t"
    using chunk_is_encoding [OF assms(3,5)] chunk_index_iff [OF assms(3)] by blast
  then obtain f where f: "\<And>k. k < ?n \<Longrightarrow> ?slice k = utf8_encode (f k)"
    by metis
  have "concat (map chunk (map ?r [0 ..< ?n])) = concat (map (\<lambda>k. utf8_decode (?slice k)) [0 ..< ?n])"
    by (simp add: comp_def)
  also have "\<dots> = concat (map (\<lambda>k. map of_char (f k)) [0 ..< ?n])"
    by (rule arg_cong [where f = concat], rule map_cong) (simp_all add: f utf8_decode_encode)
  also have "\<dots> = map of_char (concat (map f [0 ..< ?n]))"
    by (simp add: map_concat comp_def)
  also have "\<dots> = utf8_decode (utf8_encode (concat (map f [0 ..< ?n])))"
    by (simp only: utf8_decode_encode)
  also have "utf8_encode (concat (map f [0 ..< ?n])) = concat (map (\<lambda>k. utf8_encode (f k)) [0 ..< ?n])"
    by (simp add: utf8_encode_concat comp_def)
  also have "\<dots> = concat (map ?slice [0 ..< ?n])"
    by (rule arg_cong [where f = concat], rule map_cong) (simp_all add: f)
  also have "\<dots> = take (?n * c) ?bytes"
    by (simp only: concat_slices)
  also have "\<dots> = ?bytes"
    using chunk_count_covers [OF assms(3), of "length ?bytes"] by simp
  finally have cc: "concat (map chunk (map ?r [0 ..< ?n])) = map of_char ?s"
    by (simp only: utf8_decode_encode)
  have ne: "map ?r [0 ..< ?n] \<noteq> []"
    using npos by simp
  have "last (map ?r [0 ..< ?n]) = ?r (?n - 1)"
    using npos by (simp add: last_map)
  then have lst: "\<not> hasMore (last (map ?r [0 ..< ?n]))"
    using npos by simp
  have "butlast (map ?r [0 ..< ?n]) = map ?r [0 ..< ?n - 1]"
    by (simp only: map_butlast [symmetric] butlast_upt_0)
  then have bl: "\<forall>r \<in> set (butlast (map ?r [0 ..< ?n])). hasMore r"
    by auto
  show ?thesis
    by (intro exI [of _ "map ?r [0 ..< ?n]"] conjI rb cc ne lst bl)
qed

lemma spill_accent:
  "writeResultToTempFile sample_env empty_fs (JStr [CHR 0xE9])
   = (Inr \<lparr>spill_filePath = ''/tmp/mongodb-result-2024-05-06T07-08-09-123Z.json'',
            spill_size = 4, spill_timestamp = ''2024-05-06T07-08-09-123Z'',
            spill_notice = ''Result exceeded size limit and was written to a temporary file.''\<rparr>,
      \<lparr>files = (\<lambda>p. None)(''/tmp/mongodb-result-2024-05-06T07-08-09-123Z.json''
                 \<mapsto> RegularFile [0x22, 0xC3, 0xA9, 0x22]),
       write_refused = (\<lambda>p. False)\<rparr>)"
  by (simp add: eval_files eval_paths quote_def escape_char_def Let_def)

lemma accent_text: "ser ''  '' [] (JStr [CHR 0xE9]) = [CHR 0x22, CHR 0xE9, CHR 0x22]"
  by (simp add: quote_def escape_char_def)

lemma accent_bytes: "utf8_encode [CHR 0x22, CHR 0xE9, CHR 0x22] = [0x22, 0xC3, 0xA9, 0x22]"
  by (simp add: utf8_encode_def utf8_encode_char_def)

lemma accent_starts: "char_starts [CHR 0x22, CHR 0xE9, CHR 0x22] = [0, 1, 3, 4]"
  by (simp add: char_starts_def utf8_encode_def utf8_encode_char_def upt_rec)

theorem spill_read_back_witness:
  "\<exists>rs. read_back sample_env
           \<lparr>files = (\<lambda>p. None)(''/tmp/mongodb-result-2024-05-06T07-08-09-123Z.json''
                 \<mapsto> RegularFile [0x22, 0xC3, 0xA9, 0x22]),
            write_refused = (\<lambda>p. False)\<rparr>
           ''/tmp/mongodb-result-2024-05-06T07-08-09-123Z.json'' 4 3
          = map (\<lambda>r. Some (Inr r)) rs
        \<and> concat (map chunk rs) = [0x22, 0xE9, 0x22]
        \<and> rs \<noteq> [] \<and> \<not> hasMore (last rs) \<and> (\<forall>r \<in> set (butlast rs). hasMore r)"
proof -
  have iso: "CHR ''/'' \<notin> set (now_iso sample_env)"
    by (simp add: sample_env_def)
  have c: "0 < (3::nat)" "(3::nat) < 2147483648"
    by simp_all
  have offsets: "chunk_offsets 4 3 = [0, 3]"
    by (simp add: chunk_offsets_def upt_rec)
  have keep: "chunks_keep_characters (ser ''  '' [] (JStr [CHR 0xE9])) 3"
  proof -
    have len: "length [0x22, 0xC3, 0xA9, 0x22 :: byte] = 4"
      by simp
    show ?thesis
      unfolding chunks_keep_characters_def accent_text accent_bytes accent_starts len offsets
      by simp
  qed
  show ?thesis
    using spill_read_back [OF spill_accent iso c keep] unfolding accent_text by simp
qed

text \<open>
  Claim C6 as stated fails where a chunk boundary falls inside a character of two bytes:
  each half decodes to U+FFFD, so the chunks do not add up to the text that was written.
\<close>

theorem spill_read_back_counterexample:
  "fst (writeResultToTempFile sample_env empty_fs (JStr [CHR 0xE9]))
     = Inr \<lparr>spill_filePath = ''/tmp/mongodb-result-2024-05-06T07-08-09-123Z.json'',
            spill_size = 4, spill_timestamp = ''2024-05-06T07-08-09-123Z'',
            spill_notice = ''Result exceeded size limit and was written to a temporary file.''\<rparr>
   \<and> read_back sample_env (snd (writeResultToTempFile sample_env empty_fs (JStr [CHR 0xE9])))
         ''/tmp/mongodb-result-2024-05-06T07-08-09-123Z.json'' 4 2
       = [Some (Inr \<lparr>chunk = [0x22, 0xFFFD], chunk_offset = 0, chunk_length = 2,
                     totalSize = 4, hasMore = True\<rparr>),
          Some (Inr \<lparr>chunk = [0xFFFD, 0x22], chunk_offset = 2, chunk_length = 2,
                     totalSize = 4, hasMore = False\<rparr>)]
   \<and> map of_char (ser ''  '' [] (JStr [CHR 0xE9])) = [0x22, 0xE9, 0x22 :: int]"
proof -
  let ?path = "''/tmp/mongodb-result-2024-05-06T07-08-09-123Z.json''"
  let ?fs = "\<lparr>files = (\<lambda>p. None)(?path \<mapsto> RegularFile [0x22, 0xC3, 0xA9, 0x22]),
             write_refused = (\<lambda>p. False)\<rparr>"
  have u: "chunk_offsets 4 2 = [0, 2]"
    by (simp add: chunk_offsets_def upt_rec)
  have s: "sanitizeFilePath sample_env ?path = ?path"
    by (simp add: eval_paths sample_env_def)
  have r: "read_back sample_env ?fs ?path 4 2
           = [Some (Inr \<lparr>chunk = [0x22, 0xFFFD], chunk_offset = 0, chunk_length = 2,
                         totalSize = 4, hasMore = True\<rparr>),
              Some (Inr \<lparr>chunk = [0xFFFD, 0x22], chunk_offset = 2, chunk_length = 2,
                         totalSize = 4, hasMore = False\<rparr>)]"
    by (simp add: read_back_def u readFileChunk_def s fs_open_def fs_stat_def
          handle_read_def utf8_decode_def utf8_step_def utf8_lead_def utf8_init_def Let_def)
  have t: "map of_char (ser ''  '' [] (JStr [CHR 0xE9])) = [0x22, 0xE9, 0x22 :: int]"
    by (simp add: quote_def escape_char_def)
  show ?thesis
    by (simp only: spill_accent fst_conv snd_conv r t)
qed

end
